theory Spec2Isabelle
  imports Complex_Main "HOL-Library.Sublist" "HOL-Library.AList"
begin

section \<open>Python text\<close>

text \<open>
  A Python \<open>str\<close> is modelled by its UTF-8 encoding, a \<open>string\<close> of 8-bit characters:
  UTF-8 is the encoding of the source files and of every file the program writes.
  ASCII text is written as a literal, text outside ASCII as the list of its code points
  under \<open>utf8\<close>.
\<close>

text \<open>
  The code points of an encoded text: a byte from 0x80 to 0xBF continues the code point
  begun before it. \<open>len\<close> of a \<open>str\<close> counts code points and a loop over a \<open>str\<close>
  visits them one by one.
\<close>

definition is_continuation :: "char \<Rightarrow> bool" where
  "is_continuation c = (0x80 \<le> (of_char c :: nat) \<and> (of_char c :: nat) < 0xC0)"

function code_points :: "string \<Rightarrow> string list" where
  "code_points [] = []"
| "code_points (c # cs) =
     (c # takeWhile is_continuation cs) # code_points (dropWhile is_continuation cs)"
  by pat_completeness auto
termination
  by (relation "measure length") (auto simp: length_dropWhile_le less_Suc_eq_le)

text \<open>
  \<open>str.lower()\<close> maps the code points of a text one by one. The letters A to Z become
  a to z. Two code points outside ASCII have a lower case that holds an ASCII letter:
  U+212A, the Kelvin sign, becomes k, and U+0130, the capital I with a dot above, becomes
  i followed by U+0307, the combining dot above. Every other code point outside ASCII has
  a lower case outside ASCII and is left as it is: the lower-cased text is only searched
  for the entries of the rule tables, which are ASCII, and is never returned.
\<close>

definition ascii_uppercase :: string where
  "ascii_uppercase = ''ABCDEFGHIJKLMNOPQRSTUVWXYZ''"

definition ascii_lowercase :: string where
  "ascii_lowercase = ''abcdefghijklmnopqrstuvwxyz''"

definition char_lower :: "char \<Rightarrow> char" where
  "char_lower c = (case map_of (zip ascii_uppercase ascii_lowercase) c of
                     None \<Rightarrow> c | Some l \<Rightarrow> l)"

definition KELVIN_SIGN :: string where
  "KELVIN_SIGN = [CHR 0xE2, CHR 0x84, CHR 0xAA]"

definition CAPITAL_I_WITH_DOT_ABOVE :: string where
  "CAPITAL_I_WITH_DOT_ABOVE = [CHR 0xC4, CHR 0xB0]"

definition COMBINING_DOT_ABOVE :: string where
  "COMBINING_DOT_ABOVE = [CHR 0xCC, CHR 0x87]"

definition lower_code_point :: "string \<Rightarrow> string" where
  "lower_code_point cp =
     (if cp = KELVIN_SIGN then ''k''
      else if cp = CAPITAL_I_WITH_DOT_ABOVE then ''i'' @ COMBINING_DOT_ABOVE
      else map char_lower cp)"

definition lower :: "string \<Rightarrow> string" where
  "lower s = concat (map lower_code_point (code_points s))"

text \<open>\<open>sub in s\<close> on two strings: \<open>sub\<close> occurs in \<open>s\<close> as a contiguous block.\<close>

fun py_in :: "string \<Rightarrow> string \<Rightarrow> bool" where
  "py_in sub [] = (sub = [])"
| "py_in sub (c # cs) = (prefix sub (c # cs) \<or> py_in sub cs)"

text \<open>\<open>str(n)\<close> for an integer, as the f-strings of the source interpolate it.\<close>

fun decimal :: "nat \<Rightarrow> string" where
  "decimal n = (if n < 10 then [''0123456789'' ! n]
                else decimal (n div 10) @ [''0123456789'' ! (n mod 10)])"

declare decimal.simps [simp del]

definition str_of_int :: "int \<Rightarrow> string" where
  "str_of_int i = (if i < 0 then ''-'' @ decimal (nat (- i)) else decimal (nat i))"

text \<open>The UTF-8 encoding of a code point, and of a text given by its code points.\<close>

definition utf8_char :: "nat \<Rightarrow> string" where
  "utf8_char n =
     (if n < 0x80 then [char_of n]
      else if n < 0x800 then [char_of (0xC0 + n div 0x40), char_of (0x80 + n mod 0x40)]
      else if n < 0x10000 then
        [char_of (0xE0 + n div 0x1000), char_of (0x80 + n div 0x40 mod 0x40),
         char_of (0x80 + n mod 0x40)]
      else
        [char_of (0xF0 + n div 0x40000), char_of (0x80 + n div 0x1000 mod 0x40),
         char_of (0x80 + n div 0x40 mod 0x40), char_of (0x80 + n mod 0x40)])"

definition utf8 :: "nat list \<Rightarrow> string" where
  "utf8 cps = concat (map utf8_char cps)"

section \<open>Python values, exceptions\<close>

text \<open>
  The dictionaries the program receives are untyped. A value is \<open>None\<close>, an integer, a
  \<open>str\<close>, a list or a dictionary with \<open>str\<close> keys (booleans, floats and objects of
  other classes are left out); a dictionary is the list of its items in insertion order,
  its keys distinct. An operation applied to a value of the wrong type raises, and the
  exception is the \<open>Inl\<close> of the result. Every exception here is an \<open>Exception\<close>,
  which an \<open>except Exception\<close> clause catches.
\<close>

datatype pyval =
    PNone
  | PInt int
  | PStr string
  | PList "pyval list"
  | PDict "(string \<times> pyval) list"

datatype exc = TypeError | AttributeError | KeyError | OSError

definition and_then :: "exc + 'a \<Rightarrow> ('a \<Rightarrow> exc + 'b) \<Rightarrow> exc + 'b" where
  "and_then m f = (case m of Inl e \<Rightarrow> Inl e | Inr x \<Rightarrow> f x)"

text \<open>\<open>d.get(k, dflt)\<close>: only a dictionary has the method.\<close>

definition dict_get :: "pyval \<Rightarrow> string \<Rightarrow> pyval \<Rightarrow> exc + pyval" where
  "dict_get d k dflt =
     (case d of
        PDict kvs \<Rightarrow> Inr (case map_of kvs k of None \<Rightarrow> dflt | Some v \<Rightarrow> v)
      | _ \<Rightarrow> Inl AttributeError)"

text \<open>\<open>d[k] = v\<close> on a dictionary: a key already present keeps its place.\<close>

definition dict_set :: "pyval \<Rightarrow> string \<Rightarrow> pyval \<Rightarrow> exc + pyval" where
  "dict_set d k v =
     (case d of PDict kvs \<Rightarrow> Inr (PDict (AList.update k v kvs)) | _ \<Rightarrow> Inl TypeError)"

definition py_len :: "pyval \<Rightarrow> exc + nat" where
  "py_len v =
     (case v of
        PStr s \<Rightarrow> Inr (length (code_points s))
      | PList xs \<Rightarrow> Inr (length xs)
      | PDict kvs \<Rightarrow> Inr (length kvs)
      | _ \<Rightarrow> Inl TypeError)"

text \<open>The values a \<open>for\<close> loop over \<open>v\<close> visits.\<close>

definition py_iter :: "pyval \<Rightarrow> exc + pyval list" where
  "py_iter v =
     (case v of
        PStr s \<Rightarrow> Inr (map PStr (code_points s))
      | PList xs \<Rightarrow> Inr xs
      | PDict kvs \<Rightarrow> Inr (map (\<lambda>kv. PStr (fst kv)) kvs)
      | _ \<Rightarrow> Inl TypeError)"

text \<open>\<open>v.lower()\<close>: only a \<open>str\<close> has the method.\<close>

definition str_lower :: "pyval \<Rightarrow> exc + string" where
  "str_lower v = (case v of PStr s \<Rightarrow> Inr (lower s) | _ \<Rightarrow> Inl AttributeError)"

text \<open>Truth of a value in a condition.\<close>

definition truthy :: "pyval \<Rightarrow> bool" where
  "truthy v =
     (case v of
        PNone \<Rightarrow> False
      | PInt i \<Rightarrow> i \<noteq> 0
      | PStr s \<Rightarrow> s \<noteq> []
      | PList xs \<Rightarrow> xs \<noteq> []
      | PDict kvs \<Rightarrow> kvs \<noteq> [])"

section \<open>ReportComposer: the rule tables\<close>

definition supported_formats :: "string list" where
  "supported_formats = [''json'', ''csv'', ''txt'', ''html'']"

definition suspicious_keywords :: "string list" where
  "suspicious_keywords =
     [''hack'', ''crack'', ''mod'', ''premium'', ''free'', ''cheat'',
      ''virus'', ''trojan'', ''malware'', ''spyware'', ''keylogger'',
      ''bot'', ''exploit'', ''root'', ''jailbreak'', ''adware'', ''ransomware'']"

definition dangerous_permissions :: "string list" where
  "dangerous_permissions =
     [''READ_SMS'', ''SEND_SMS'', ''RECEIVE_SMS'', ''READ_CONTACTS'',
      ''WRITE_CONTACTS'', ''ACCESS_FINE_LOCATION'', ''ACCESS_COARSE_LOCATION'',
      ''RECORD_AUDIO'', ''CAMERA'', ''READ_CALL_LOG'', ''WRITE_CALL_LOG'']"

section \<open>Dangerous-permission extraction\<close>

text \<open>
  The test of one permission against a rule table, entry by entry, stopping at the first
  entry found: the inner loop of \<open>_extract_dangerous_permissions\<close> with its \<open>break\<close>,
  and the \<open>any(...)\<close> of \<open>_save_html\<close>. \<open>perm.lower()\<close> raises on a value that is no
  \<open>str\<close>.
\<close>

fun flagged :: "string list \<Rightarrow> pyval \<Rightarrow> exc + bool" where
  "flagged [] perm = Inr False"
| "flagged (danger_perm # table) perm =
     and_then (str_lower perm)
       (\<lambda>perm_lower. if py_in (lower danger_perm) perm_lower then Inr True
                      else flagged table perm)"

fun extract_loop :: "pyval list \<Rightarrow> pyval list \<Rightarrow> exc + pyval list" where
  "extract_loop [] dangerous = Inr dangerous"
| "extract_loop (perm # perms) dangerous =
     and_then (flagged dangerous_permissions perm)
       (\<lambda>hit. extract_loop perms (if hit then dangerous @ [perm] else dangerous))"

definition extract_dangerous_permissions :: "pyval \<Rightarrow> exc + pyval list" where
  "extract_dangerous_permissions permissions =
     and_then (py_iter permissions) (\<lambda>perms. extract_loop perms [])"

section \<open>Message texts\<close>

text \<open>
  The literals of the source, by their code points. The three risk tiers read
  vysokij (high), srednij (medium) and nizkij (low).
\<close>

definition RISK_HIGH :: string where
  "RISK_HIGH = utf8 [0x432, 0x44B, 0x441, 0x43E, 0x43A, 0x438, 0x439]"

definition RISK_MEDIUM :: string where
  "RISK_MEDIUM = utf8 [0x441, 0x440, 0x435, 0x434, 0x43D, 0x438, 0x439]"

definition RISK_LOW :: string where
  "RISK_LOW = utf8 [0x43D, 0x438, 0x437, 0x43A, 0x438, 0x439]"

text \<open>
  The colour constants of the user-interface toolkit, which is no part of the repository:
  members of a \<open>str\<close>-valued enumeration. No result below depends on their values.
\<close>

definition Colors_RED :: string where "Colors_RED = ''red''"
definition Colors_ORANGE :: string where "Colors_ORANGE = ''orange''"
definition Colors_GREEN :: string where "Colors_GREEN = ''green''"

text \<open>The warning on the number \<open>n\<close> of dangerous permissions.\<close>

definition warning_dangerous :: "nat \<Rightarrow> string" where
  "warning_dangerous n =
     utf8 [0x41E, 0x431, 0x43D, 0x430, 0x440, 0x443, 0x436, 0x435, 0x43D, 0x43E, 0x20]
     @ decimal n @
     utf8 [0x20, 0x43E, 0x43F, 0x430, 0x441, 0x43D, 0x44B, 0x445, 0x20, 0x440, 0x430, 0x437,
       0x440, 0x435, 0x448, 0x435, 0x43D, 0x438, 0x439]"

text \<open>The warning that names a suspicious keyword, between single quotes.\<close>

definition warning_keyword :: "string \<Rightarrow> string" where
  "warning_keyword keyword =
     utf8 [0x41F, 0x43E, 0x434, 0x43E, 0x437, 0x440, 0x438, 0x442, 0x435, 0x43B, 0x44C, 0x43D,
       0x43E, 0x435, 0x20, 0x43A, 0x43B, 0x44E, 0x447, 0x435, 0x432, 0x43E, 0x435, 0x20,
       0x441, 0x43B, 0x43E, 0x432, 0x43E, 0x20, 0x432, 0x20, 0x438, 0x43C, 0x435, 0x43D,
       0x438, 0x3A, 0x20, 0x27]
     @ keyword @ utf8 [0x27]"

text \<open>The warning on a large number \<open>n\<close> of permissions.\<close>

definition warning_many :: "nat \<Rightarrow> string" where
  "warning_many n =
     utf8 [0x411, 0x43E, 0x43B, 0x44C, 0x448, 0x43E, 0x435, 0x20, 0x43A, 0x43E, 0x43B, 0x438,
       0x447, 0x435, 0x441, 0x442, 0x432, 0x43E, 0x20, 0x440, 0x430, 0x437, 0x440, 0x435,
       0x448, 0x435, 0x43D, 0x438, 0x439, 0x3A, 0x20]
     @ decimal n"

text \<open>The recommendations: do not install, and cross-check with an antivirus service.\<close>

definition REC_DO_NOT_INSTALL :: string where
  "REC_DO_NOT_INSTALL =
     utf8 [0x26A0, 0xFE0F, 0x20, 0x41D, 0x415, 0x20, 0x423, 0x421, 0x422, 0x410, 0x41D, 0x410,
       0x412, 0x41B, 0x418, 0x412, 0x410, 0x422, 0x42C, 0x21, 0x20, 0x424, 0x430, 0x439,
       0x43B, 0x20, 0x432, 0x44B, 0x433, 0x43B, 0x44F, 0x434, 0x438, 0x442, 0x20, 0x43F,
       0x43E, 0x434, 0x43E, 0x437, 0x440, 0x438, 0x442, 0x435, 0x43B, 0x44C, 0x43D, 0x43E]"

definition REC_CROSS_CHECK :: string where
  "REC_CROSS_CHECK =
     utf8 [0x41F, 0x440, 0x43E, 0x432, 0x435, 0x440, 0x44C, 0x442, 0x435, 0x20, 0x41, 0x50,
       0x4B, 0x20, 0x447, 0x435, 0x440, 0x435, 0x437, 0x20, 0x56, 0x69, 0x72, 0x75, 0x73,
       0x54, 0x6F, 0x74, 0x61, 0x6C, 0x20, 0x438, 0x43B, 0x438, 0x20, 0x434, 0x440, 0x443,
       0x433, 0x438, 0x435, 0x20, 0x430, 0x43D, 0x442, 0x438, 0x432, 0x438, 0x440, 0x443,
       0x441, 0x44B]"

text \<open>The application asks for that many dangerous permissions; think whether it needs them.\<close>

definition rec_dangerous :: "string \<Rightarrow> string" where
  "rec_dangerous n =
     utf8 [0x412, 0x43D, 0x438, 0x43C, 0x430, 0x43D, 0x438, 0x435, 0x21, 0x20, 0x41F, 0x440,
       0x438, 0x43B, 0x43E, 0x436, 0x435, 0x43D, 0x438, 0x435, 0x20, 0x437, 0x430, 0x43F,
       0x440, 0x430, 0x448, 0x438, 0x432, 0x430, 0x435, 0x442, 0x20]
     @ n @
     utf8 [0x20, 0x43E, 0x43F, 0x430, 0x441, 0x43D, 0x44B, 0x445, 0x20, 0x440, 0x430, 0x437,
       0x440, 0x435, 0x448, 0x435, 0x43D, 0x438, 0x439]"

definition REC_RECONSIDER :: string where
  "REC_RECONSIDER =
     utf8 [0x41F, 0x43E, 0x434, 0x443, 0x43C, 0x430, 0x439, 0x442, 0x435, 0x2C, 0x20, 0x434,
       0x435, 0x439, 0x441, 0x442, 0x432, 0x438, 0x442, 0x435, 0x43B, 0x44C, 0x43D, 0x43E,
       0x20, 0x43B, 0x438, 0x20, 0x43F, 0x440, 0x438, 0x43B, 0x43E, 0x436, 0x435, 0x43D,
       0x438, 0x44E, 0x20, 0x43D, 0x443, 0x436, 0x43D, 0x44B, 0x20, 0x44D, 0x442, 0x438,
       0x20, 0x440, 0x430, 0x437, 0x440, 0x435, 0x448, 0x435, 0x43D, 0x438, 0x44F]"

text \<open>The application asks for too many permissions; consider alternatives.\<close>

definition REC_TOO_MANY :: string where
  "REC_TOO_MANY =
     utf8 [0x41F, 0x440, 0x438, 0x43B, 0x43E, 0x436, 0x435, 0x43D, 0x438, 0x435, 0x20, 0x437,
       0x430, 0x43F, 0x440, 0x430, 0x448, 0x438, 0x432, 0x430, 0x435, 0x442, 0x20, 0x441,
       0x43B, 0x438, 0x448, 0x43A, 0x43E, 0x43C, 0x20, 0x43C, 0x43D, 0x43E, 0x433, 0x43E,
       0x20, 0x440, 0x430, 0x437, 0x440, 0x435, 0x448, 0x435, 0x43D, 0x438, 0x439]"

definition REC_ALTERNATIVES :: string where
  "REC_ALTERNATIVES =
     utf8 [0x420, 0x430, 0x441, 0x441, 0x43C, 0x43E, 0x442, 0x440, 0x438, 0x442, 0x435, 0x20,
       0x430, 0x43B, 0x44C, 0x442, 0x435, 0x440, 0x43D, 0x430, 0x442, 0x438, 0x432, 0x43D,
       0x44B, 0x435, 0x20, 0x43F, 0x440, 0x438, 0x43B, 0x43E, 0x436, 0x435, 0x43D, 0x438,
       0x44F, 0x20, 0x441, 0x20, 0x43C, 0x435, 0x43D, 0x44C, 0x448, 0x438, 0x43C, 0x20,
       0x43A, 0x43E, 0x43B, 0x438, 0x447, 0x435, 0x441, 0x442, 0x432, 0x43E, 0x43C, 0x20,
       0x440, 0x430, 0x437, 0x440, 0x435, 0x448, 0x435, 0x43D, 0x438, 0x439]"

text \<open>The reassuring statement: the check found no threats.\<close>

definition REC_NO_THREATS :: string where
  "REC_NO_THREATS =
     utf8 [0x41F, 0x440, 0x43E, 0x432, 0x435, 0x440, 0x43A, 0x430, 0x20, 0x447, 0x435, 0x440,
       0x435, 0x437, 0x20, 0x41, 0x6E, 0x67, 0x72, 0x6F, 0x67, 0x75, 0x61, 0x72, 0x64,
       0x20, 0x43D, 0x435, 0x20, 0x43E, 0x431, 0x43D, 0x430, 0x440, 0x443, 0x436, 0x438,
       0x43B, 0x430, 0x20, 0x443, 0x433, 0x440, 0x43E, 0x437]"

section \<open>Risk scorer\<close>

text \<open>
  The score is an \<open>int\<close> until half a point per dangerous permission is added, a
  \<open>float\<close> after. Every value it takes is a multiple of one half, which a \<open>float\<close>
  holds exactly, so the rationals model it. \<open>int(x)\<close> drops the fraction of \<open>x\<close>.
\<close>

definition int_of_float :: "rat \<Rightarrow> int" where
  "int_of_float x = (if 0 \<le> x then \<lfloor>x\<rfloor> else \<lceil>x\<rceil>)"

text \<open>The loop over the keywords: one point for each keyword found in the name.\<close>

fun keyword_loop :: "string list \<Rightarrow> string \<Rightarrow> int \<Rightarrow> int" where
  "keyword_loop [] apk_name_lower score = score"
| "keyword_loop (keyword # keywords) apk_name_lower score =
     keyword_loop keywords apk_name_lower
       (if py_in keyword apk_name_lower then score + 1 else score)"

definition calculate_suspicious_score :: "pyval \<Rightarrow> pyval \<Rightarrow> exc + int" where
  "calculate_suspicious_score apk_info analysis_data =
     and_then (dict_get apk_info ''name'' (PStr '''')) (\<lambda>name.
     and_then (str_lower name) (\<lambda>apk_name_lower.
     let score = keyword_loop suspicious_keywords apk_name_lower 0 in
     and_then (dict_get analysis_data ''Permissions'' (PList [])) (\<lambda>permissions.
     and_then (extract_dangerous_permissions permissions) (\<lambda>dangerous_perms.
     let score = of_int score + of_nat (length dangerous_perms) * (1 / 2) in
     Inr (min (int_of_float (score * 2)) 10)))))"

text \<open>The warnings. The keyword loop stops at the first keyword found.\<close>

fun first_keyword :: "string list \<Rightarrow> string \<Rightarrow> string option" where
  "first_keyword [] apk_name_lower = None"
| "first_keyword (keyword # keywords) apk_name_lower =
     (if py_in keyword apk_name_lower then Some keyword
      else first_keyword keywords apk_name_lower)"

definition generate_warnings :: "pyval \<Rightarrow> pyval \<Rightarrow> exc + string list" where
  "generate_warnings apk_info analysis_data =
     and_then (dict_get analysis_data ''Permissions'' (PList [])) (\<lambda>permissions.
     and_then (extract_dangerous_permissions permissions) (\<lambda>dangerous_perms.
     let warnings =
       (if dangerous_perms \<noteq> [] then [warning_dangerous (length dangerous_perms)] else []) in
     and_then (dict_get apk_info ''name'' (PStr '''')) (\<lambda>name.
     and_then (str_lower name) (\<lambda>apk_name_lower.
     let warnings =
       (case first_keyword suspicious_keywords apk_name_lower of
          None \<Rightarrow> warnings
        | Some keyword \<Rightarrow> warnings @ [warning_keyword keyword]) in
     and_then (py_len permissions) (\<lambda>n.
     Inr (if n > 20 then warnings @ [warning_many n] else warnings))))))"

definition assess_security :: "pyval \<Rightarrow> pyval \<Rightarrow> exc + pyval" where
  "assess_security apk_info analysis_data =
     and_then (dict_get analysis_data ''Permissions'' (PList [])) (\<lambda>permissions.
     and_then (extract_dangerous_permissions permissions) (\<lambda>dangerous_perms.
     and_then (calculate_suspicious_score apk_info analysis_data) (\<lambda>suspicious_score.
     let (risk_level, risk_color) =
       (if suspicious_score \<ge> 7 \<or> length dangerous_perms \<ge> 3 then (RISK_HIGH, Colors_RED)
        else if suspicious_score \<ge> 4 \<or> length dangerous_perms \<ge> 1
          then (RISK_MEDIUM, Colors_ORANGE)
        else (RISK_LOW, Colors_GREEN)) in
     and_then (generate_warnings apk_info analysis_data) (\<lambda>warnings.
     Inr (PDict
       [(''risk_level'', PStr risk_level),
        (''risk_color'', PStr risk_color),
        (''suspicious_score'', PInt suspicious_score),
        (''dangerous_permissions_count'', PInt (int (length dangerous_perms))),
        (''warnings'', PList (map PStr warnings))])))))"

section \<open>Report composer\<close>

text \<open>
  The recommendations read the report only. \<open>count > 0\<close> raises on every value but an
  integer, so the text that follows interpolates an integer.
\<close>

definition generate_recommendations :: "pyval \<Rightarrow> exc + string list" where
  "generate_recommendations report =
     and_then (dict_get report ''security_assessment'' (PDict [])) (\<lambda>security.
     and_then (dict_get security ''risk_level'' PNone) (\<lambda>risk_level.
     let recommendations =
       (if risk_level = PStr RISK_HIGH then [REC_DO_NOT_INSTALL, REC_CROSS_CHECK] else []) in
     and_then (dict_get security ''dangerous_permissions_count'' (PInt 0)) (\<lambda>count.
     and_then
       (case count of
          PInt i \<Rightarrow>
            Inr (if i > 0 then recommendations @ [rec_dangerous (str_of_int i), REC_RECONSIDER]
                 else recommendations)
        | _ \<Rightarrow> Inl TypeError) (\<lambda>recommendations.
     and_then (dict_get report ''permissions'' (PDict [])) (\<lambda>permissions.
     and_then (dict_get permissions ''list'' (PList [])) (\<lambda>perm_list.
     and_then (py_len perm_list) (\<lambda>n.
     let recommendations =
       (if n > 25 then recommendations @ [REC_TOO_MANY, REC_ALTERNATIVES]
        else recommendations) in
     Inr (if recommendations = [] then [REC_NO_THREATS] else recommendations))))))))"

text \<open>
  The body of the \<open>try\<close> block of \<open>compose_report\<close>. \<open>analysis_date\<close> is the reading
  of the clock, \<open>datetime.now().isoformat()\<close>. The source reads
  \<open>analysis_data.get('Permissions', [])\<close> and \<open>analysis_data.get('Intents', {})\<close> at
  each use; a read changes nothing, so each is bound once here.
\<close>

definition compose_body :: "string \<Rightarrow> pyval \<Rightarrow> pyval \<Rightarrow> exc + pyval" where
  "compose_body analysis_date apk_info analysis_data =
     and_then (dict_get apk_info ''name'' (PStr ''Unknown'')) (\<lambda>apk_name.
     and_then (dict_get apk_info ''path'' (PStr '''')) (\<lambda>apk_path.
     and_then (dict_get apk_info ''size'' (PInt 0)) (\<lambda>file_size.
     and_then (dict_get apk_info ''last_modified'' (PStr '''')) (\<lambda>last_modified.
     and_then (dict_get analysis_data ''Permissions'' (PList [])) (\<lambda>permissions.
     and_then (py_len permissions) (\<lambda>total.
     and_then (extract_dangerous_permissions permissions) (\<lambda>dangerous.
     and_then (dict_get analysis_data ''Intents'' (PDict [])) (\<lambda>intents.
     and_then (assess_security apk_info analysis_data) (\<lambda>security_assessment.
     and_then (py_len permissions) (\<lambda>total_permissions.
     and_then (extract_dangerous_permissions permissions) (\<lambda>dangerous_again.
     and_then (py_len intents) (\<lambda>activities.
     and_then (calculate_suspicious_score apk_info analysis_data) (\<lambda>suspicious_score.
     let report = PDict
       [(''metadata'', PDict
           [(''apk_name'', apk_name),
            (''apk_path'', apk_path),
            (''file_size'', file_size),
            (''last_modified'', last_modified),
            (''analysis_date'', PStr analysis_date),
            (''report_version'', PStr ''1.0'')]),
        (''permissions'', PDict
           [(''total'', PInt (int total)),
            (''list'', permissions),
            (''dangerous'', PList dangerous)]),
        (''intents'', intents),
        (''security_assessment'', security_assessment),
        (''recommendations'', PList []),
        (''statistics'', PDict
           [(''total_permissions'', PInt (int total_permissions)),
            (''dangerous_permissions'', PInt (int (length dangerous_again))),
            (''activities'', PInt (int activities)),
            (''suspicious_score'', PInt suspicious_score)])] in
     and_then (generate_recommendations report) (\<lambda>recommendations.
     dict_set report ''recommendations'' (PList (map PStr recommendations))))))))))))))))"

text \<open>
  \<open>compose_report\<close>: any exception of the body is caught and the empty dictionary
  returned (the message printed is left out).
\<close>

definition compose_report :: "string \<Rightarrow> pyval \<Rightarrow> pyval \<Rightarrow> pyval" where
  "compose_report analysis_date apk_info analysis_data =
     (case compose_body analysis_date apk_info analysis_data of
        Inl e \<Rightarrow> PDict []
      | Inr report \<Rightarrow> report)"

text \<open>Reading a field of a report, and a field of a section of it.\<close>

definition field :: "pyval \<Rightarrow> string \<Rightarrow> pyval option" where
  "field d k = (case d of PDict kvs \<Rightarrow> map_of kvs k | _ \<Rightarrow> None)"

definition field2 :: "pyval \<Rightarrow> string \<Rightarrow> string \<Rightarrow> pyval option" where
  "field2 d k1 k2 = (case field d k1 of None \<Rightarrow> None | Some v \<Rightarrow> field v k2)"

section \<open>Hypertext serializer\<close>

text \<open>
  \<open>_save_html\<close> builds the text of the document, then writes it. The document is kept
  here as the values interpolated into the template, in the order of the template; the
  fixed markup between them is left out. Every permission of the list is one list item:
  its \<open>class\<close> attribute and its text. A section of the report that the template
  reads several times is bound once. The default of the risk level reads neizvestno
  (unknown).
\<close>

definition RISK_UNKNOWN :: string where
  "RISK_UNKNOWN = utf8 [0x43D, 0x435, 0x438, 0x437, 0x432, 0x435, 0x441, 0x442, 0x43D, 0x43E]"

record html_document =
  title_apk_name :: pyval
  header_apk_name :: pyval
  header_analysis_date :: pyval
  risk_class :: string
  risk_text :: pyval
  permissions_total :: pyval
  permission_items :: "(string \<times> pyval) list"
  recommendation_items :: "pyval list"

fun permission_items_loop ::
  "pyval list \<Rightarrow> (string \<times> pyval) list \<Rightarrow> exc + (string \<times> pyval) list" where
  "permission_items_loop [] items = Inr items"
| "permission_items_loop (perm # perms) items =
     and_then (flagged dangerous_permissions perm) (\<lambda>is_dangerous.
     let danger_class = (if is_dangerous then ''dangerous'' else '''') in
     permission_items_loop perms (items @ [(danger_class, perm)]))"

definition html_content :: "pyval \<Rightarrow> exc + html_document" where
  "html_content report =
     and_then (dict_get report ''metadata'' (PDict [])) (\<lambda>metadata.
     and_then (dict_get metadata ''apk_name'' (PStr ''Unknown'')) (\<lambda>apk_name.
     and_then (dict_get metadata ''analysis_date'' (PStr ''Unknown'')) (\<lambda>analysis_date.
     and_then (dict_get report ''security_assessment'' (PDict [])) (\<lambda>security.
     and_then (dict_get security ''risk_level'' (PStr '''')) (\<lambda>risk_level.
     and_then (str_lower risk_level) (\<lambda>risk_level_lower.
     and_then (dict_get security ''risk_level'' (PStr RISK_UNKNOWN)) (\<lambda>risk_level_text.
     and_then (dict_get report ''permissions'' (PDict [])) (\<lambda>permissions.
     and_then (dict_get permissions ''total'' (PInt 0)) (\<lambda>permissions_total.
     and_then (dict_get permissions ''list'' (PList [])) (\<lambda>perm_list.
     and_then (py_iter perm_list) (\<lambda>perms.
     and_then (permission_items_loop perms []) (\<lambda>items.
     and_then (dict_get report ''recommendations'' (PList [])) (\<lambda>recommendations.
     and_then (py_iter recommendations) (\<lambda>recs.
     Inr \<lparr>title_apk_name = apk_name,
          header_apk_name = apk_name,
          header_analysis_date = analysis_date,
          risk_class = risk_level_lower,
          risk_text = risk_level_text,
          permissions_total = permissions_total,
          permission_items = items,
          recommendation_items = recs\<rparr>))))))))))))))"

text \<open>
  A serializer is a step of the file system that returns or raises. \<open>write_file\<close> opens
  the path and writes the document; \<open>_save_html\<close> reaches it once the text is built.
\<close>

type_synonym 'fs serializer = "pyval \<Rightarrow> string \<Rightarrow> 'fs \<Rightarrow> exc option \<times> 'fs"

definition save_html ::
  "(string \<Rightarrow> html_document \<Rightarrow> 'fs \<Rightarrow> exc option \<times> 'fs) \<Rightarrow> 'fs serializer" where
  "save_html write_file report file_path fs =
     (case html_content report of
        Inl e \<Rightarrow> (Some e, fs)
      | Inr document \<Rightarrow> write_file file_path document fs)"

section \<open>Batch save\<close>

text \<open>
  The clock, and \<open>strftime("%Y%m%d_%H%M%S")\<close> on a reading of it: each field in
  decimal, padded with zeros to its width (four digits for the year, two for the others).
  The microseconds of the reading are not printed.
\<close>

record datetime =
  year :: nat
  month :: nat
  day :: nat
  hour :: nat
  minute :: nat
  second :: nat
  microsecond :: nat

definition zero_pad :: "nat \<Rightarrow> nat \<Rightarrow> string" where
  "zero_pad width n = replicate (width - length (decimal n)) (CHR ''0'') @ decimal n"

definition strftime :: "datetime \<Rightarrow> string" where
  "strftime now =
     zero_pad 4 (year now) @ zero_pad 2 (month now) @ zero_pad 2 (day now) @ ''_'' @
     zero_pad 2 (hour now) @ zero_pad 2 (minute now) @ zero_pad 2 (second now)"

text \<open>\<open>os.path.join\<close> of two components, on a POSIX system.\<close>

definition os_path_join :: "string \<Rightarrow> string \<Rightarrow> string" where
  "os_path_join a b =
     (if b \<noteq> [] \<and> hd b = CHR ''/'' then b
      else if a = [] \<or> last a = CHR ''/'' then a @ b
      else a @ ''/'' @ b)"

text \<open>
  The four serializers of the composer. Those of the structured, tabular and plain-text
  forms write through library code and are taken as given.
\<close>

record 'fs serializers =
  json_serializer :: "'fs serializer"
  csv_serializer :: "'fs serializer"
  txt_serializer :: "'fs serializer"
  html_serializer :: "'fs serializer"

text \<open>
  The \<open>try\<close> block of the loop: the branch of the format calls its serializer and, when
  it returns, records the path; an exception leaves the mapping as it was.
\<close>

definition record_saved ::
  "string \<Rightarrow> string \<Rightarrow> (string \<times> string) list \<Rightarrow> exc option \<times> 'fs
     \<Rightarrow> (string \<times> string) list \<times> 'fs" where
  "record_saved key file_path saved_files outcome =
     (case outcome of
        (None, fs) \<Rightarrow> (AList.update key file_path saved_files, fs)
      | (Some e, fs) \<Rightarrow> (saved_files, fs))"

definition write_format ::
  "'fs serializers \<Rightarrow> pyval \<Rightarrow> string \<Rightarrow> string \<Rightarrow> (string \<times> string) list \<times> 'fs
     \<Rightarrow> (string \<times> string) list \<times> 'fs" where
  "write_format ser report fmt file_path state =
     (case state of (saved_files, fs) \<Rightarrow>
        if fmt = ''json'' then
          record_saved ''json'' file_path saved_files (json_serializer ser report file_path fs)
        else if fmt = ''csv'' then
          record_saved ''csv'' file_path saved_files (csv_serializer ser report file_path fs)
        else if fmt = ''txt'' then
          record_saved ''txt'' file_path saved_files (txt_serializer ser report file_path fs)
        else if fmt = ''html'' then
          record_saved ''html'' file_path saved_files (html_serializer ser report file_path fs)
        else (saved_files, fs))"

fun save_loop ::
  "'fs serializers \<Rightarrow> string \<Rightarrow> string \<Rightarrow> pyval \<Rightarrow> string list
     \<Rightarrow> (string \<times> string) list \<times> 'fs \<Rightarrow> (string \<times> string) list \<times> 'fs" where
  "save_loop ser reports_dir base_filename report [] state = state"
| "save_loop ser reports_dir base_filename report (fmt # formats) state =
     save_loop ser reports_dir base_filename report formats
       (if fmt \<notin> set supported_formats then state
        else write_format ser report fmt
               (os_path_join reports_dir (base_filename @ ''.'' @ fmt)) state)"

definition save_report ::
  "'fs serializers \<Rightarrow> string \<Rightarrow> datetime \<Rightarrow> pyval \<Rightarrow> string \<Rightarrow> string list option \<Rightarrow> 'fs
     \<Rightarrow> (string \<times> string) list \<times> 'fs" where
  "save_report ser reports_dir now report apk_name formats fs =
     (let formats = (case formats of None \<Rightarrow> [''json'', ''txt''] | Some fmts \<Rightarrow> fmts);
          timestamp = strftime now;
          base_filename = apk_name @ ''_'' @ timestamp
      in save_loop ser reports_dir base_filename report formats ([], fs))"

section \<open>Presentation-level tier\<close>

text \<open>
  \<open>determine_maliciousness\<close> of the application window, with the tables of that class.
  Its two metric updates change neither the tally nor the result and are left out. The
  three levels read vysokaya (high), srednyaya (medium) and nizkaya (low).
\<close>

definition SUSPICIOUS_WORDS :: "string list" where
  "SUSPICIOUS_WORDS =
     [''hack'', ''crack'', ''mod'', ''premium'', ''free'', ''cheat'',
      ''virus'', ''trojan'', ''malware'', ''spyware'', ''keylogger'',
      ''bot'', ''exploit'', ''root'', ''jailbreak'', ''adware'', ''ransomware'']"

definition DANGEROUS_PERMISSIONS :: "string list" where
  "DANGEROUS_PERMISSIONS =
     [''READ_SMS'', ''SEND_SMS'', ''RECEIVE_SMS'', ''READ_CONTACTS'',
      ''WRITE_CONTACTS'', ''ACCESS_FINE_LOCATION'', ''ACCESS_COARSE_LOCATION'',
      ''RECORD_AUDIO'', ''CAMERA'', ''READ_CALL_LOG'', ''WRITE_CALL_LOG'']"

definition LEVEL_HIGH :: string where
  "LEVEL_HIGH = utf8 [0x432, 0x44B, 0x441, 0x43E, 0x43A, 0x430, 0x44F]"

definition LEVEL_MEDIUM :: string where
  "LEVEL_MEDIUM = utf8 [0x441, 0x440, 0x435, 0x434, 0x43D, 0x44F, 0x44F]"

definition LEVEL_LOW :: string where
  "LEVEL_LOW = utf8 [0x43D, 0x438, 0x437, 0x43A, 0x430, 0x44F]"

text \<open>
  \<open>any(perm.lower() in p.lower() for p in permissions)\<close>: the permissions in turn, up to
  the first that contains the entry.
\<close>

fun any_contains :: "string \<Rightarrow> pyval list \<Rightarrow> exc + bool" where
  "any_contains perm [] = Inr False"
| "any_contains perm (p # ps) =
     and_then (str_lower p)
       (\<lambda>p_lower. if py_in (lower perm) p_lower then Inr True else any_contains perm ps)"

text \<open>The loop over the table: half a point for each entry some permission contains.\<close>

fun permission_loop :: "string list \<Rightarrow> pyval \<Rightarrow> nat \<times> rat \<Rightarrow> exc + nat \<times> rat" where
  "permission_loop [] permissions counts = Inr counts"
| "permission_loop (perm # table) permissions counts =
     and_then (py_iter permissions) (\<lambda>ps.
     and_then (any_contains perm ps) (\<lambda>hit.
     permission_loop table permissions
       (if hit then (fst counts + 1, snd counts + 1 / 2) else counts)))"

definition determine_maliciousness :: "pyval \<Rightarrow> pyval \<Rightarrow> exc + string \<times> string" where
  "determine_maliciousness apk_name permissions =
     and_then (str_lower apk_name) (\<lambda>apk_name_lower.
     let suspicious_count = of_int (keyword_loop SUSPICIOUS_WORDS apk_name_lower 0) in
     and_then
       (if truthy permissions
        then permission_loop DANGEROUS_PERMISSIONS permissions (0, suspicious_count)
        else Inr (0, suspicious_count)) (\<lambda>counts.
     let suspicious_count = snd counts in
     Inr (if suspicious_count \<ge> 2 then (LEVEL_HIGH, Colors_RED)
          else if suspicious_count \<ge> 1 then (LEVEL_MEDIUM, Colors_ORANGE)
          else (LEVEL_LOW, Colors_GREEN))))"

section \<open>The rules in words\<close>

text \<open>
  The rules as the specification words them, to compare with the loops above. A
  permission is dangerous when, letter case aside, it contains an entry of the table.
\<close>

definition contains_ci :: "string \<Rightarrow> string \<Rightarrow> bool" where
  "contains_ci sub s = sublist (lower sub) (lower s)"

definition is_dangerous_permission :: "string \<Rightarrow> bool" where
  "is_dangerous_permission perm = (\<exists>entry \<in> set dangerous_permissions. contains_ci entry perm)"

definition count_dangerous :: "string list \<Rightarrow> nat" where
  "count_dangerous perms = length (filter is_dangerous_permission perms)"

definition keyword_hits :: "string \<Rightarrow> nat" where
  "keyword_hits name =
     length (filter (\<lambda>keyword. contains_ci keyword name) suspicious_keywords)"

text \<open>The tier of the composer, from the score and the number of dangerous permissions.\<close>

definition tier :: "int \<Rightarrow> nat \<Rightarrow> string" where
  "tier score count =
     (if score \<ge> 7 \<or> count \<ge> 3 then RISK_HIGH
      else if score \<ge> 4 \<or> count \<ge> 1 then RISK_MEDIUM
      else RISK_LOW)"

definition tier_color :: "int \<Rightarrow> nat \<Rightarrow> string" where
  "tier_color score count =
     (if score \<ge> 7 \<or> count \<ge> 3 then Colors_RED
      else if score \<ge> 4 \<or> count \<ge> 1 then Colors_ORANGE
      else Colors_GREEN)"

text \<open>
  The recommendation rules, from the tier, the number of dangerous permissions and the
  length of the permission list; the reassuring statement when none fired.
\<close>

definition recommendation_rules :: "pyval \<Rightarrow> int \<Rightarrow> nat \<Rightarrow> string list" where
  "recommendation_rules risk_level count n =
     (let fired =
        (if risk_level = PStr RISK_HIGH then [REC_DO_NOT_INSTALL, REC_CROSS_CHECK] else [])
        @ (if count > 0 then [rec_dangerous (str_of_int count), REC_RECONSIDER] else [])
        @ (if n > 25 then [REC_TOO_MANY, REC_ALTERNATIVES] else [])
      in if fired = [] then [REC_NO_THREATS] else fired)"

text \<open>
  The report that composition builds from the values it reads: the sections in the order
  of the source, the recommendations filled in.
\<close>

definition report_of ::
  "string \<Rightarrow> pyval \<Rightarrow> pyval \<Rightarrow> pyval \<Rightarrow> pyval \<Rightarrow> pyval \<Rightarrow> nat \<Rightarrow> pyval list \<Rightarrow> pyval \<Rightarrow> nat
     \<Rightarrow> int \<Rightarrow> string list \<Rightarrow> pyval" where
  "report_of analysis_date apk_name apk_path file_size last_modified permissions n_perms
      dangerous intents activities score warnings =
     PDict
       [(''metadata'', PDict
           [(''apk_name'', apk_name),
            (''apk_path'', apk_path),
            (''file_size'', file_size),
            (''last_modified'', last_modified),
            (''analysis_date'', PStr analysis_date),
            (''report_version'', PStr ''1.0'')]),
        (''permissions'', PDict
           [(''total'', PInt (int n_perms)),
            (''list'', permissions),
            (''dangerous'', PList dangerous)]),
        (''intents'', intents),
        (''security_assessment'', PDict
           [(''risk_level'', PStr (tier score (length dangerous))),
            (''risk_color'', PStr (tier_color score (length dangerous))),
            (''suspicious_score'', PInt score),
            (''dangerous_permissions_count'', PInt (int (length dangerous))),
            (''warnings'', PList (map PStr warnings))]),
        (''recommendations'', PList (map PStr
           (recommendation_rules (PStr (tier score (length dangerous)))
              (int (length dangerous)) n_perms))),
        (''statistics'', PDict
           [(''total_permissions'', PInt (int n_perms)),
            (''dangerous_permissions'', PInt (int (length dangerous))),
            (''activities'', PInt (int activities)),
            (''suspicious_score'', PInt score)])]"

text \<open>
  Inputs as the callers build them: the file descriptor is a dictionary whose name, when
  present, is a \<open>str\<close>; the package facts are a dictionary whose permissions, when
  present, are a list of \<open>str\<close> and whose intents, when present, are a dictionary.
\<close>

definition is_str :: "pyval \<Rightarrow> bool" where
  "is_str v = (case v of PStr s \<Rightarrow> True | _ \<Rightarrow> False)"

definition is_dict :: "pyval \<Rightarrow> bool" where
  "is_dict v = (case v of PDict kvs \<Rightarrow> True | _ \<Rightarrow> False)"

definition is_str_list :: "pyval \<Rightarrow> bool" where
  "is_str_list v = (case v of PList xs \<Rightarrow> list_all is_str xs | _ \<Rightarrow> False)"

definition name_is_str :: "pyval \<Rightarrow> bool" where
  "name_is_str apk_info =
     (case apk_info of
        PDict kvs \<Rightarrow> (case map_of kvs ''name'' of None \<Rightarrow> True | Some v \<Rightarrow> is_str v)
      | _ \<Rightarrow> False)"

definition facts_well_formed :: "pyval \<Rightarrow> bool" where
  "facts_well_formed analysis_data =
     (case analysis_data of
        PDict kvs \<Rightarrow>
          (case map_of kvs ''Permissions'' of None \<Rightarrow> True | Some v \<Rightarrow> is_str_list v)
          \<and> (case map_of kvs ''Intents'' of None \<Rightarrow> True | Some v \<Rightarrow> is_dict v)
      | _ \<Rightarrow> False)"

text \<open>
  A text cites a number when it is a decimal numeral of it: digits only, at least one,
  that read from left to right give the number.
\<close>

definition is_digit :: "char \<Rightarrow> bool" where
  "is_digit c = (c \<in> set ''0123456789'')"

definition digit_value :: "char \<Rightarrow> nat" where
  "digit_value c = of_char c - of_char (CHR ''0'')"

definition numeral_value :: "string \<Rightarrow> nat" where
  "numeral_value s = foldl (\<lambda>n c. 10 * n + digit_value c) 0 s"

definition cites :: "string \<Rightarrow> nat \<Rightarrow> bool" where
  "cites s n = (s \<noteq> [] \<and> list_all is_digit s \<and> numeral_value s = n)"

text \<open>
  A reading of the clock: a date of the years 1000 to 9999 and a time of day. A timestamp
  of second resolution has fifteen characters, \<open>YYYYMMDD_HHMMSS\<close>; its six fields are
  the numbers that its digits give.
\<close>

definition is_clock_reading :: "datetime \<Rightarrow> bool" where
  "is_clock_reading now =
     (1000 \<le> year now \<and> year now \<le> 9999 \<and> 1 \<le> month now \<and> month now \<le> 12
      \<and> 1 \<le> day now \<and> day now \<le> 31 \<and> hour now < 24 \<and> minute now < 60
      \<and> second now < 60 \<and> microsecond now < 1000000)"

definition timestamp_fields :: "string \<Rightarrow> nat list" where
  "timestamp_fields ts =
     map numeral_value
       [take 4 ts, take 2 (drop 4 ts), take 2 (drop 6 ts),
        take 2 (drop 9 ts), take 2 (drop 11 ts), take 2 (drop 13 ts)]"

definition is_timestamp :: "string \<Rightarrow> bool" where
  "is_timestamp ts =
     (length ts = 15 \<and> ts ! 8 = CHR ''_'' \<and> list_all is_digit (take 8 ts @ drop 9 ts))"

text \<open>The serializer that the branch of a supported format calls.\<close>

definition serializer_for :: "'fs serializers \<Rightarrow> string \<Rightarrow> 'fs serializer" where
  "serializer_for ser fmt =
     (if fmt = ''json'' then json_serializer ser
      else if fmt = ''csv'' then csv_serializer ser
      else if fmt = ''txt'' then txt_serializer ser
      else html_serializer ser)"

text \<open>
  The tally of the presentation-level tier: one point for each word of the table found
  in the lower-cased name, half a point for each entry of the table that some permission
  contains, letter case aside.
\<close>

definition quick_tally :: "string \<Rightarrow> string list \<Rightarrow> rat" where
  "quick_tally name perms =
     of_nat (length (filter (\<lambda>word. sublist word (lower name)) SUSPICIOUS_WORDS))
     + of_nat (length (filter (\<lambda>entry. \<exists>p \<in> set perms. contains_ci entry p)
                         DANGEROUS_PERMISSIONS)) * (1 / 2)"

text \<open>
  The list item of one permission in the hypertext form: marked dangerous when the test
  against the table finds an entry.
\<close>

definition item_of :: "pyval \<Rightarrow> string \<times> pyval" where
  "item_of perm =
     (if flagged dangerous_permissions perm = Inr True then ''dangerous'' else '''', perm)"

section \<open>Properties of the model\<close>

subsection \<open>Extraction, score and warnings on well-typed inputs\<close>

text \<open>
  On a list of \<open>str\<close> the loops are the filters of the rules in words, and nothing
  raises.
\<close>

lemma py_in_sublist: "py_in sub s = sublist sub s"
  by (induction s) (auto simp: sublist_Cons_right)

lemma and_then_Inr [simp]: "and_then (Inr x) f = f x"
  by (simp add: and_then_def)

lemma and_then_Inl [simp]: "and_then (Inl e) f = Inl e"
  by (simp add: and_then_def)

lemma and_then_eq_Inr: "and_then m f = Inr y \<longleftrightarrow> (\<exists>x. m = Inr x \<and> f x = Inr y)"
  by (cases m) simp_all

lemma flagged_str: "flagged table (PStr p) = Inr (\<exists>entry \<in> set table. contains_ci entry p)"
  by (induction table) (auto simp: str_lower_def contains_ci_def py_in_sublist)

lemma flagged_dangerous: "flagged dangerous_permissions (PStr p) = Inr (is_dangerous_permission p)"
  by (simp add: flagged_str is_dangerous_permission_def)

lemma extract_loop_str:
  "extract_loop (map PStr perms) acc = Inr (acc @ map PStr (filter is_dangerous_permission perms))"
  by (induction perms arbitrary: acc) (simp_all add: flagged_dangerous)

lemma extract_str_list:
  "extract_dangerous_permissions (PList (map PStr perms)) =
     Inr (map PStr (filter is_dangerous_permission perms))"
  by (simp add: extract_dangerous_permissions_def py_iter_def extract_loop_str)

lemma lower_suspicious_keywords: "\<forall>k \<in> set suspicious_keywords. lower k = k"
  by code_simp

lemma keyword_loop_filter:
  "keyword_loop ks name score = score + int (length (filter (\<lambda>k. sublist k name) ks))"
  by (induction ks arbitrary: score) (simp_all add: py_in_sublist)

lemma first_keyword_find: "first_keyword ks name = find (\<lambda>k. sublist k name) ks"
  by (induction ks) (simp_all add: py_in_sublist)

lemma keyword_hits_eq:
  "length (filter (\<lambda>k. sublist k (lower name)) suspicious_keywords) = keyword_hits name"
proof -
  have "filter (\<lambda>k. sublist k (lower name)) suspicious_keywords
      = filter (\<lambda>k. contains_ci k name) suspicious_keywords"
    by (rule filter_cong) (simp_all add: contains_ci_def lower_suspicious_keywords)
  then show ?thesis by (simp add: keyword_hits_def)
qed

lemma int_of_float_halves:
  "int_of_float ((of_int (int k) + of_nat d * (1 / 2)) * 2) = int (2 * k + d)"
proof -
  have eq: "(of_int (int k) + of_nat d * (1 / 2)) * (2::rat) = of_int (int (2 * k + d))"
    by (simp add: algebra_simps)
  have "int_of_float (of_int (int (2 * k + d))) = int (2 * k + d)"
    unfolding int_of_float_def
    by (simp only: floor_of_int of_int_0_le_iff of_nat_0_le_iff if_True)
  then show ?thesis
    by (simp only: eq)
qed

lemma score_typed:
  assumes "dict_get apk_info ''name'' (PStr '''') = Inr (PStr name)"
      and "dict_get analysis_data ''Permissions'' (PList []) = Inr (PList (map PStr perms))"
  shows "calculate_suspicious_score apk_info analysis_data =
           Inr (min (int (2 * keyword_hits name + count_dangerous perms)) 10)"
proof -
  have norm: "int_of_float (rat_of_int (int k) * 2 + rat_of_nat d) = int (2 * k + d)" for k d
    using int_of_float_halves[of k d] by (simp add: algebra_simps)
  show ?thesis
    using assms
    by (simp add: calculate_suspicious_score_def str_lower_def keyword_loop_filter
        keyword_hits_eq extract_str_list count_dangerous_def Let_def norm
      del: of_int_of_nat_eq of_nat_add of_nat_mult)
qed

lemma char_of_bits:
  "char_of (n::nat) = Char (odd n) (odd (n div 2)) (odd (n div 4)) (odd (n div 8))
     (odd (n div 16)) (odd (n div 32)) (odd (n div 64)) (odd (n div 128))"
  by (simp add: char_of_def bit_iff_odd)

lemma risk_levels_distinct:
  "RISK_HIGH \<noteq> RISK_MEDIUM" "RISK_HIGH \<noteq> RISK_LOW" "RISK_MEDIUM \<noteq> RISK_LOW"
  by (simp_all add: RISK_HIGH_def RISK_MEDIUM_def RISK_LOW_def utf8_def utf8_char_def char_of_bits)

lemma warnings_typed:
  assumes "dict_get apk_info ''name'' (PStr '''') = Inr (PStr name)"
      and "dict_get analysis_data ''Permissions'' (PList []) = Inr (PList (map PStr perms))"
  shows "generate_warnings apk_info analysis_data =
           Inr ((if count_dangerous perms > 0 then [warning_dangerous (count_dangerous perms)] else [])
              @ (case find (\<lambda>keyword. sublist keyword (lower name)) suspicious_keywords of
                   None \<Rightarrow> [] | Some keyword \<Rightarrow> [warning_keyword keyword])
              @ (if length perms > 20 then [warning_many (length perms)] else []))"
  using assms
  by (simp add: generate_warnings_def str_lower_def first_keyword_find extract_str_list
      count_dangerous_def py_len_def Let_def split: option.splits)

subsection \<open>When the composer returns\<close>

text \<open>
  Each function of the composer returns exactly when everything it reads has the type
  it needs, and then returns the value spelled out here.
\<close>

lemma case_PInt_Inr:
  "(case count of PInt i \<Rightarrow> Inr (f i) | _ \<Rightarrow> Inl TypeError) = Inr r
     \<longleftrightarrow> (\<exists>i. count = PInt i \<and> r = f i)"
  by (cases count) auto

lemma generate_recommendations_Inr:
  "generate_recommendations report = Inr recs \<longleftrightarrow>
     (\<exists>security risk_level count permissions perm_list n.
         dict_get report ''security_assessment'' (PDict []) = Inr security
       \<and> dict_get security ''risk_level'' PNone = Inr risk_level
       \<and> dict_get security ''dangerous_permissions_count'' (PInt 0) = Inr (PInt count)
       \<and> dict_get report ''permissions'' (PDict []) = Inr permissions
       \<and> dict_get permissions ''list'' (PList []) = Inr perm_list
       \<and> py_len perm_list = Inr n
       \<and> recs = recommendation_rules risk_level count n)"
  unfolding generate_recommendations_def Let_def and_then_eq_Inr case_PInt_Inr
    recommendation_rules_def
  by (rule iffI; elim exE conjE; simp; fastforce)

lemma risk_pair:
  "(if score \<ge> 7 \<or> n \<ge> 3 then (RISK_HIGH, Colors_RED)
    else if score \<ge> 4 \<or> n \<ge> 1 then (RISK_MEDIUM, Colors_ORANGE)
    else (RISK_LOW, Colors_GREEN)) = (tier score n, tier_color score n)"
  by (simp add: tier_def tier_color_def)

lemma assess_security_Inr:
  "assess_security apk_info analysis_data = Inr sec \<longleftrightarrow>
     (\<exists>permissions dangerous score warnings.
           dict_get analysis_data ''Permissions'' (PList []) = Inr permissions
         \<and> extract_dangerous_permissions permissions = Inr dangerous
         \<and> calculate_suspicious_score apk_info analysis_data = Inr score
         \<and> generate_warnings apk_info analysis_data = Inr warnings
         \<and> sec = PDict
             [(''risk_level'', PStr (tier score (length dangerous))),
              (''risk_color'', PStr (tier_color score (length dangerous))),
              (''suspicious_score'', PInt score),
              (''dangerous_permissions_count'', PInt (int (length dangerous))),
              (''warnings'', PList (map PStr warnings))])"
  unfolding assess_security_def risk_pair Let_def and_then_eq_Inr prod.case
  by (rule iffI) (elim exE conjE, intro exI conjI, assumption+, simp, blast)

lemma recommendations_of_composed:
  assumes "py_len permissions = Inr n_perms"
  shows "generate_recommendations (PDict
       [(''metadata'', m),
        (''permissions'', PDict
           [(''total'', t),
            (''list'', permissions),
            (''dangerous'', d)]),
        (''intents'', intents),
        (''security_assessment'', PDict
           [(''risk_level'', risk_level),
            (''risk_color'', c),
            (''suspicious_score'', sc),
            (''dangerous_permissions_count'', PInt count),
            (''warnings'', w)]),
        (''recommendations'', r),
        (''statistics'', st)]) = Inr (recommendation_rules risk_level count n_perms)"
  unfolding generate_recommendations_Inr
  using assms by (simp add: dict_get_def)

lemma compose_body_Inr:
  "compose_body analysis_date apk_info analysis_data = Inr report \<longleftrightarrow>
     (\<exists>apk_name apk_path file_size last_modified permissions n_perms dangerous intents
        activities score warnings.
         dict_get apk_info ''name'' (PStr ''Unknown'') = Inr apk_name
       \<and> dict_get apk_info ''path'' (PStr '''') = Inr apk_path
       \<and> dict_get apk_info ''size'' (PInt 0) = Inr file_size
       \<and> dict_get apk_info ''last_modified'' (PStr '''') = Inr last_modified
       \<and> dict_get analysis_data ''Permissions'' (PList []) = Inr permissions
       \<and> py_len permissions = Inr n_perms
       \<and> extract_dangerous_permissions permissions = Inr dangerous
       \<and> dict_get analysis_data ''Intents'' (PDict []) = Inr intents
       \<and> py_len intents = Inr activities
       \<and> calculate_suspicious_score apk_info analysis_data = Inr score
       \<and> generate_warnings apk_info analysis_data = Inr warnings
       \<and> report = report_of analysis_date apk_name apk_path file_size last_modified
            permissions n_perms dangerous intents activities score warnings)"
proof
  assume "compose_body analysis_date apk_info analysis_data = Inr report"
  then show "\<exists>apk_name apk_path file_size last_modified permissions n_perms dangerous intents
        activities score warnings.
         dict_get apk_info ''name'' (PStr ''Unknown'') = Inr apk_name
       \<and> dict_get apk_info ''path'' (PStr '''') = Inr apk_path
       \<and> dict_get apk_info ''size'' (PInt 0) = Inr file_size
       \<and> dict_get apk_info ''last_modified'' (PStr '''') = Inr last_modified
       \<and> dict_get analysis_data ''Permissions'' (PList []) = Inr permissions
       \<and> py_len permissions = Inr n_perms
       \<and> extract_dangerous_permissions permissions = Inr dangerous
       \<and> dict_get analysis_data ''Intents'' (PDict []) = Inr intents
       \<and> py_len intents = Inr activities
       \<and> calculate_suspicious_score apk_info analysis_data = Inr score
       \<and> generate_warnings apk_info analysis_data = Inr warnings
       \<and> report = report_of analysis_date apk_name apk_path file_size last_modified
            permissions n_perms dangerous intents activities score warnings"
    unfolding compose_body_def Let_def and_then_eq_Inr assess_security_Inr
    apply (elim exE conjE)
    apply (simp add: recommendations_of_composed dict_set_def report_of_def)
    done
next
  assume "\<exists>apk_name apk_path file_size last_modified permissions n_perms dangerous intents
        activities score warnings.
         dict_get apk_info ''name'' (PStr ''Unknown'') = Inr apk_name
       \<and> dict_get apk_info ''path'' (PStr '''') = Inr apk_path
       \<and> dict_get apk_info ''size'' (PInt 0) = Inr file_size
       \<and> dict_get apk_info ''last_modified'' (PStr '''') = Inr last_modified
       \<and> dict_get analysis_data ''Permissions'' (PList []) = Inr permissions
       \<and> py_len permissions = Inr n_perms
       \<and> extract_dangerous_permissions permissions = Inr dangerous
       \<and> dict_get analysis_data ''Intents'' (PDict []) = Inr intents
       \<and> py_len intents = Inr activities
       \<and> calculate_suspicious_score apk_info analysis_data = Inr score
       \<and> generate_warnings apk_info analysis_data = Inr warnings
       \<and> report = report_of analysis_date apk_name apk_path file_size last_modified
            permissions n_perms dangerous intents activities score warnings"
  then show "compose_body analysis_date apk_info analysis_data = Inr report"
    unfolding compose_body_def Let_def
    apply (elim exE conjE)
    apply (simp add: assess_security_Inr [THEN iffD2] recommendations_of_composed dict_set_def report_of_def)
    done
qed

lemma count_list_filter_le: "count_list (filter P xs) x \<le> count_list xs x"
  by (induction xs) auto

lemma compose_report_nonempty:
  assumes "compose_report analysis_date apk_info analysis_data = report" and "report \<noteq> PDict []"
  shows "compose_body analysis_date apk_info analysis_data = Inr report"
  using assms by (auto simp: compose_report_def split: sum.splits)

lemma report_of_nonempty:
  "report_of t n p s l ps k d i a sc w \<noteq> PDict []"
  by (simp add: report_of_def)

lemma compose_report_Inr:
  "compose_body analysis_date apk_info analysis_data = Inr report
     \<Longrightarrow> compose_report analysis_date apk_info analysis_data = report"
  by (simp add: compose_report_def)

lemma compose_body_typed:
  assumes "dict_get (PDict a) ''name'' (PStr '''') = Inr (PStr name)"
      and "dict_get analysis_data ''Permissions'' (PList []) = Inr (PList (map PStr perms))"
      and "dict_get analysis_data ''Intents'' (PDict []) = Inr intents"
      and "py_len intents = Inr activities"
      and "generate_warnings (PDict a) analysis_data = Inr warnings"
  shows "compose_body analysis_date (PDict a) analysis_data =
           Inr (report_of analysis_date
                  (case map_of a ''name'' of None \<Rightarrow> PStr ''Unknown'' | Some v \<Rightarrow> v)
                  (case map_of a ''path'' of None \<Rightarrow> PStr '''' | Some v \<Rightarrow> v)
                  (case map_of a ''size'' of None \<Rightarrow> PInt 0 | Some v \<Rightarrow> v)
                  (case map_of a ''last_modified'' of None \<Rightarrow> PStr '''' | Some v \<Rightarrow> v)
                  (PList (map PStr perms)) (length perms)
                  (map PStr (filter is_dangerous_permission perms)) intents activities
                  (min (int (2 * keyword_hits name + count_dangerous perms)) 10)
                  warnings)"
  unfolding compose_body_Inr
  using assms(2-5) score_typed[OF assms(1,2)]
  by (simp add: dict_get_def py_len_def extract_str_list)

lemma compose_report_typed:
  assumes "dict_get (PDict a) ''name'' (PStr '''') = Inr (PStr name)"
      and "dict_get analysis_data ''Permissions'' (PList []) = Inr (PList (map PStr perms))"
      and "dict_get analysis_data ''Intents'' (PDict []) = Inr intents"
      and "py_len intents = Inr activities"
      and "generate_warnings (PDict a) analysis_data = Inr warnings"
  shows "compose_report analysis_date (PDict a) analysis_data =
           report_of analysis_date
                  (case map_of a ''name'' of None \<Rightarrow> PStr ''Unknown'' | Some v \<Rightarrow> v)
                  (case map_of a ''path'' of None \<Rightarrow> PStr '''' | Some v \<Rightarrow> v)
                  (case map_of a ''size'' of None \<Rightarrow> PInt 0 | Some v \<Rightarrow> v)
                  (case map_of a ''last_modified'' of None \<Rightarrow> PStr '''' | Some v \<Rightarrow> v)
                  (PList (map PStr perms)) (length perms)
                  (map PStr (filter is_dangerous_permission perms)) intents activities
                  (min (int (2 * keyword_hits name + count_dangerous perms)) 10)
                  warnings"
  by (rule compose_report_Inr[OF compose_body_typed[OF assms]])

lemma compose_report_typed_nonempty:
  assumes "dict_get (PDict a) ''name'' (PStr '''') = Inr (PStr name)"
      and "dict_get analysis_data ''Permissions'' (PList []) = Inr (PList (map PStr perms))"
      and "dict_get analysis_data ''Intents'' (PDict []) = Inr intents"
      and "py_len intents = Inr activities"
  shows "compose_report analysis_date (PDict a) analysis_data \<noteq> PDict []"
proof -
  obtain ws where "generate_warnings (PDict a) analysis_data = Inr ws"
    using warnings_typed[OF assms(1,2)] by simp
  from compose_report_typed[OF assms this] show ?thesis
    by (simp only: report_of_nonempty not_False_eq_True)
qed

subsection \<open>The dangerous list is a subsequence\<close>

lemma extract_loop_subseq:
  "extract_loop perms acc = Inr out \<Longrightarrow> \<exists>ds. out = acc @ ds \<and> subseq ds perms"
proof (induction perms arbitrary: acc)
  case Nil
  then show ?case by simp
next
  case (Cons perm perms)
  from Cons.prems obtain hit where
    h: "extract_loop perms (if hit then acc @ [perm] else acc) = Inr out"
    by (auto simp: and_then_eq_Inr)
  from Cons.IH[OF h] obtain ds where
    ds: "out = (if hit then acc @ [perm] else acc) @ ds" "subseq ds perms"
    by blast
  show ?case
  proof (cases hit)
    case True
    with ds have "out = acc @ (perm # ds)" "subseq (perm # ds) (perm # perms)"
      by simp_all
    then show ?thesis by blast
  next
    case False
    with ds have "out = acc @ ds" "subseq ds (perm # perms)"
      by (simp_all add: list_emb_Cons)
    then show ?thesis by blast
  qed
qed

lemma extract_subseq:
  assumes "extract_dangerous_permissions permissions = Inr dangerous"
  shows "\<exists>items. py_iter permissions = Inr items \<and> subseq dangerous items"
proof -
  from assms obtain items where
    i: "py_iter permissions = Inr items" and l: "extract_loop items [] = Inr dangerous"
    by (auto simp: extract_dangerous_permissions_def and_then_eq_Inr)
  from extract_loop_subseq[OF l] have "subseq dangerous items" by simp
  with i show ?thesis by blast
qed

subsection \<open>The recommendation rules\<close>

lemma recommendation_rules_pieces:
  "recommendation_rules risk_level count n =
     (if risk_level = PStr RISK_HIGH then [REC_DO_NOT_INSTALL, REC_CROSS_CHECK] else [])
     @ (if count > 0 then [rec_dangerous (str_of_int count), REC_RECONSIDER] else [])
     @ (if n > 25 then [REC_TOO_MANY, REC_ALTERNATIVES] else [])
     @ (if risk_level \<noteq> PStr RISK_HIGH \<and> count \<le> 0 \<and> n \<le> 25 then [REC_NO_THREATS] else [])"
  by (simp add: recommendation_rules_def Let_def)

lemma recommendation_rules_nonempty: "recommendation_rules risk_level count n \<noteq> []"
  by (simp add: recommendation_rules_def Let_def)

lemma no_threats_distinct:
  "REC_NO_THREATS \<noteq> REC_DO_NOT_INSTALL" "REC_NO_THREATS \<noteq> REC_CROSS_CHECK"
  "REC_NO_THREATS \<noteq> rec_dangerous s" "REC_NO_THREATS \<noteq> REC_RECONSIDER"
  "REC_NO_THREATS \<noteq> REC_TOO_MANY" "REC_NO_THREATS \<noteq> REC_ALTERNATIVES"
  by (simp_all add: REC_NO_THREATS_def REC_DO_NOT_INSTALL_def REC_CROSS_CHECK_def
      rec_dangerous_def REC_RECONSIDER_def REC_TOO_MANY_def REC_ALTERNATIVES_def
      utf8_def utf8_char_def char_of_bits)

lemma no_threats_alone:
  "REC_NO_THREATS \<in> set (recommendation_rules risk_level count n)
     \<longleftrightarrow> recommendation_rules risk_level count n = [REC_NO_THREATS]"
  by (simp add: recommendation_rules_def Let_def no_threats_distinct)

lemma recommendations_of_report_of:
  assumes "py_len permissions = Inr n"
  shows "generate_recommendations
           (report_of analysis_date apk_name apk_path file_size last_modified permissions n
              dangerous intents activities score warnings)
         = Inr (recommendation_rules (PStr (tier score (length dangerous)))
                  (int (length dangerous)) n)"
  unfolding report_of_def by (rule recommendations_of_composed[OF assms])

subsection \<open>Well-formed inputs\<close>

lemma is_str_PStr: "is_str v \<Longrightarrow> \<exists>s. v = PStr s"
  by (cases v) (simp_all add: is_str_def)

lemma list_all_is_str: "list_all is_str xs \<Longrightarrow> \<exists>perms. xs = map PStr perms"
proof (induction xs)
  case Nil
  then show ?case by simp
next
  case (Cons x xs)
  from Cons.prems have "is_str x" and "list_all is_str xs" by simp_all
  from Cons.IH[OF this(2)] obtain perms where "xs = map PStr perms" by blast
  moreover from \<open>is_str x\<close> obtain s where "x = PStr s" using is_str_PStr by blast
  ultimately have "x # xs = map PStr (s # perms)" by simp
  then show ?case by (rule exI[of _ "s # perms"])
qed

lemma is_str_list_PList: "is_str_list v \<Longrightarrow> \<exists>perms. v = PList (map PStr perms)"
  by (cases v) (auto simp: is_str_list_def dest: list_all_is_str)

lemma name_is_str_get:
  assumes "name_is_str apk_info"
  shows "\<exists>a name. apk_info = PDict a \<and> dict_get (PDict a) ''name'' (PStr '''') = Inr (PStr name)"
proof -
  from assms obtain a where a: "apk_info = PDict a"
    by (cases apk_info) (simp_all add: name_is_str_def)
  show ?thesis
  proof (cases "map_of a ''name''")
    case None
    with a show ?thesis by (simp add: dict_get_def)
  next
    case (Some v)
    with assms a have "is_str v" by (simp add: name_is_str_def)
    then obtain s where "v = PStr s" using is_str_PStr by blast
    with a Some show ?thesis by (simp add: dict_get_def)
  qed
qed

lemma facts_well_formed_get:
  assumes "facts_well_formed analysis_data"
  shows "\<exists>perms intents activities.
           dict_get analysis_data ''Permissions'' (PList []) = Inr (PList (map PStr perms))
         \<and> dict_get analysis_data ''Intents'' (PDict []) = Inr intents
         \<and> py_len intents = Inr activities"
proof -
  from assms obtain d where d: "analysis_data = PDict d"
    by (cases analysis_data) (simp_all add: facts_well_formed_def)
  have p: "\<exists>perms. dict_get analysis_data ''Permissions'' (PList []) = Inr (PList (map PStr perms))"
  proof (cases "map_of d ''Permissions''")
    case None
    then have "dict_get analysis_data ''Permissions'' (PList []) = Inr (PList (map PStr []))"
      using d by (simp add: dict_get_def)
    then show ?thesis ..
  next
    case (Some v)
    with assms d have "is_str_list v" by (simp add: facts_well_formed_def)
    then obtain perms where "v = PList (map PStr perms)" using is_str_list_PList by blast
    with d Some
    have "dict_get analysis_data ''Permissions'' (PList []) = Inr (PList (map PStr perms))"
      by (simp add: dict_get_def)
    then show ?thesis ..
  qed
  have i: "\<exists>intents activities. dict_get analysis_data ''Intents'' (PDict []) = Inr intents
             \<and> py_len intents = Inr activities"
  proof (cases "map_of d ''Intents''")
    case None
    with d show ?thesis by (simp add: dict_get_def py_len_def)
  next
    case (Some v)
    with assms d have "is_dict v" by (simp add: facts_well_formed_def)
    then obtain kvs where "v = PDict kvs" by (cases v) (simp_all add: is_dict_def)
    with d Some show ?thesis by (simp add: dict_get_def py_len_def)
  qed
  from p i show ?thesis by blast
qed

lemma name_is_str_cases:
  assumes "name_is_str apk_info"
  shows "\<exists>info name. apk_info = PDict info
           \<and> (case map_of info ''name'' of None \<Rightarrow> PStr '''' | Some v \<Rightarrow> v) = PStr name"
proof -
  from name_is_str_get[OF assms] obtain a name where
    "apk_info = PDict a" "dict_get (PDict a) ''name'' (PStr '''') = Inr (PStr name)"
    by blast
  then have "apk_info = PDict a
      \<and> (case map_of a ''name'' of None \<Rightarrow> PStr '''' | Some v \<Rightarrow> v) = PStr name"
    by (simp add: dict_get_def)
  then show ?thesis by blast
qed

lemma facts_well_formed_cases:
  assumes "facts_well_formed analysis_data"
  shows "\<exists>facts perms intents. analysis_data = PDict facts
           \<and> (case map_of facts ''Permissions'' of None \<Rightarrow> PList [] | Some v \<Rightarrow> v)
               = PList (map PStr perms)
           \<and> (case map_of facts ''Intents'' of None \<Rightarrow> PDict [] | Some v \<Rightarrow> v)
               = PDict intents"
proof -
  from assms obtain d where d: "analysis_data = PDict d"
    by (cases analysis_data) (simp_all add: facts_well_formed_def)
  have p: "\<exists>perms. (case map_of d ''Permissions'' of None \<Rightarrow> PList [] | Some v \<Rightarrow> v)
              = PList (map PStr perms)"
  proof (cases "map_of d ''Permissions''")
    case None
    then have "(case map_of d ''Permissions'' of None \<Rightarrow> PList [] | Some v \<Rightarrow> v)
              = PList (map PStr [])"
      by simp
    then show ?thesis ..
  next
    case (Some v)
    with assms d have "is_str_list v" by (simp add: facts_well_formed_def)
    then obtain perms where "v = PList (map PStr perms)" using is_str_list_PList by blast
    with Some
    have "(case map_of d ''Permissions'' of None \<Rightarrow> PList [] | Some v \<Rightarrow> v)
              = PList (map PStr perms)"
      by simp
    then show ?thesis ..
  qed
  have i: "\<exists>intents. (case map_of d ''Intents'' of None \<Rightarrow> PDict [] | Some v \<Rightarrow> v)
              = PDict intents"
  proof (cases "map_of d ''Intents''")
    case None
    then show ?thesis by simp
  next
    case (Some v)
    with assms d have "is_dict v" by (simp add: facts_well_formed_def)
    then obtain kvs where "v = PDict kvs" by (cases v) (simp_all add: is_dict_def)
    with Some show ?thesis by simp
  qed
  from d p i show ?thesis by blast
qed

lemma compose_report_empty_inputs:
  "compose_report analysis_date (PDict []) (PDict []) =
     report_of analysis_date (PStr ''Unknown'') (PStr '''') (PInt 0) (PStr '''') (PList []) 0 []
       (PDict []) 0 0 []"
proof -
  have a: "dict_get (PDict []) ''name'' (PStr '''') = Inr (PStr '''')"
    by (simp add: dict_get_def)
  have b: "dict_get (PDict []) ''Permissions'' (PList []) = Inr (PList (map PStr []))"
    by (simp add: dict_get_def)
  have i: "dict_get (PDict []) ''Intents'' (PDict []) = Inr (PDict [])"
    by (simp add: dict_get_def)
  have l: "py_len (PDict []) = Inr 0"
    by (simp add: py_len_def)
  have k: "keyword_hits '''' = 0"
    by code_simp
  have f: "find (\<lambda>keyword. sublist keyword (lower '''')) suspicious_keywords = None"
    by code_simp
  have w: "generate_warnings (PDict []) (PDict []) = Inr []"
    using warnings_typed[OF a b] by (simp add: f count_dangerous_def)
  show ?thesis
    using compose_report_typed[OF a b i l w, of analysis_date]
    by (simp add: k count_dangerous_def)
qed

subsection \<open>The loops of the presentation-level tier\<close>

lemma any_contains_str:
  "any_contains entry (map PStr ps) = Inr (\<exists>p \<in> set ps. contains_ci entry p)"
  by (induction ps) (auto simp: str_lower_def contains_ci_def py_in_sublist)

lemma permission_loop_str:
  "permission_loop table (PList (map PStr ps)) (dangerous, suspicious) =
     Inr (dangerous + length (filter (\<lambda>entry. \<exists>p \<in> set ps. contains_ci entry p) table),
          suspicious
          + of_nat (length (filter (\<lambda>entry. \<exists>p \<in> set ps. contains_ci entry p) table)) * (1 / 2))"
proof (induction table arbitrary: dangerous suspicious)
  case Nil
  then show ?case by simp
next
  case (Cons entry table)
  show ?case
    by (simp add: py_iter_def any_contains_str Cons.IH algebra_simps)
qed

subsection \<open>The items of the hypertext form\<close>

lemma permission_items_loop_Inr:
  "permission_items_loop perms acc = Inr out \<Longrightarrow> out = acc @ map item_of perms"
proof (induction perms arbitrary: acc)
  case Nil
  then show ?case by simp
next
  case (Cons perm perms)
  from Cons.prems obtain hit where
    h: "flagged dangerous_permissions perm = Inr hit"
       "permission_items_loop perms (acc @ [(if hit then ''dangerous'' else '''', perm)]) = Inr out"
    by (auto simp: and_then_eq_Inr Let_def)
  from Cons.IH[OF h(2)] h(1) show ?case
    by (simp add: item_of_def)
qed

lemma extract_loop_filter:
  "extract_loop perms acc = Inr out \<Longrightarrow>
     out = acc @ filter (\<lambda>perm. flagged dangerous_permissions perm = Inr True) perms"
proof (induction perms arbitrary: acc)
  case Nil
  then show ?case by simp
next
  case (Cons perm perms)
  from Cons.prems obtain hit where
    h: "flagged dangerous_permissions perm = Inr hit"
       "extract_loop perms (if hit then acc @ [perm] else acc) = Inr out"
    by (auto simp: and_then_eq_Inr)
  from Cons.IH[OF h(2)] h(1) show ?case
    by simp
qed

lemma permission_items_loop_total:
  "extract_loop perms acc = Inr out \<Longrightarrow> \<exists>items. permission_items_loop perms acc' = Inr items"
proof (induction perms arbitrary: acc acc')
  case Nil
  then show ?case by simp
next
  case (Cons perm perms)
  from Cons.prems obtain hit where
    h: "flagged dangerous_permissions perm = Inr hit"
       "extract_loop perms (if hit then acc @ [perm] else acc) = Inr out"
    by (auto simp: and_then_eq_Inr)
  from Cons.IH[OF h(2)] h(1) show ?case
    by (simp add: Let_def)
qed

lemma marked_items:
  "map snd (filter (\<lambda>item. fst item = ''dangerous'') (map item_of perms))
     = filter (\<lambda>perm. flagged dangerous_permissions perm = Inr True) perms"
  by (induction perms) (simp_all add: item_of_def)

lemma html_content_Inr:
  assumes "html_content report = Inr document"
  shows "\<exists>permissions perm_list perms.
           dict_get report ''permissions'' (PDict []) = Inr permissions
         \<and> dict_get permissions ''list'' (PList []) = Inr perm_list
         \<and> py_iter perm_list = Inr perms
         \<and> permission_items document = map item_of perms"
proof -
  from assms obtain permissions perm_list perms items where
    r: "dict_get report ''permissions'' (PDict []) = Inr permissions"
       "dict_get permissions ''list'' (PList []) = Inr perm_list"
       "py_iter perm_list = Inr perms"
       "permission_items_loop perms [] = Inr items"
       "permission_items document = items"
    unfolding html_content_def and_then_eq_Inr by force
  from permission_items_loop_Inr[OF r(4)] r(5)
  have "permission_items document = map item_of perms" by simp
  with r(1-3) show ?thesis by blast
qed

lemma html_content_report_of:
  assumes "extract_dangerous_permissions permissions = Inr dangerous"
  shows "\<exists>document perms. html_content
           (report_of analysis_date apk_name apk_path file_size last_modified permissions n
              dangerous intents activities score warnings) = Inr document
         \<and> py_iter permissions = Inr perms
         \<and> permission_items document = map item_of perms
         \<and> dangerous = filter (\<lambda>perm. flagged dangerous_permissions perm = Inr True) perms"
proof -
  from assms obtain perms where
    p: "py_iter permissions = Inr perms" "extract_loop perms [] = Inr dangerous"
    by (auto simp: extract_dangerous_permissions_def and_then_eq_Inr)
  from permission_items_loop_total[OF p(2)] obtain items where
    i: "permission_items_loop perms [] = Inr items"
    by blast
  from permission_items_loop_Inr[OF i] have items: "items = map item_of perms"
    by simp
  from extract_loop_filter[OF p(2)]
  have d: "dangerous = filter (\<lambda>perm. flagged dangerous_permissions perm = Inr True) perms"
    by simp
  have "\<exists>document. html_content
           (report_of analysis_date apk_name apk_path file_size last_modified permissions n
              dangerous intents activities score warnings) = Inr document
         \<and> permission_items document = items"
  proof -
    have it: "py_iter (PList xs) = Inr xs" for xs
      by (simp add: py_iter_def)
    show ?thesis
      by (simp add: html_content_def report_of_def dict_get_def str_lower_def p(1) i it)
  qed
  with p(1) items d show ?thesis by blast
qed

lemma item_of_str:
  "item_of (PStr p) = (if is_dangerous_permission p then ''dangerous'' else '''', PStr p)"
  by (simp add: item_of_def flagged_dangerous)

subsection \<open>The loop of the batch save\<close>

lemma save_loop_append:
  "save_loop ser dir base report (xs @ ys) st =
     save_loop ser dir base report ys (save_loop ser dir base report xs st)"
  by (induction xs arbitrary: st) simp_all

lemma save_loop_filter:
  "save_loop ser dir base report formats st =
     save_loop ser dir base report (filter (\<lambda>fmt. fmt \<in> set supported_formats) formats) st"
  by (induction formats arbitrary: st) simp_all

lemma write_format_supported:
  assumes "fmt \<in> set supported_formats"
  shows "write_format ser report fmt p (saved, fs) =
           record_saved fmt p saved (serializer_for ser fmt report p fs)"
  using assms by (auto simp: supported_formats_def write_format_def serializer_for_def)

lemma record_saved_map_of:
  "map_of (fst (record_saved k p saved outcome)) =
     (if fst outcome = None then (map_of saved)(k \<mapsto> p) else map_of saved)"
  by (cases outcome) (auto simp: record_saved_def update_conv' split: option.splits)

lemma record_saved_distinct:
  "distinct (map fst saved) \<Longrightarrow> distinct (map fst (fst (record_saved k p saved outcome)))"
  by (cases outcome) (auto simp: record_saved_def distinct_update split: option.splits)

lemma save_loop_snoc_map_of:
  "map_of (fst (save_loop ser dir base report (formats @ [fmt]) st)) =
     (if fmt \<in> set supported_formats
         \<and> fst (serializer_for ser fmt report (os_path_join dir (base @ ''.'' @ fmt))
                 (snd (save_loop ser dir base report formats st))) = None
      then (map_of (fst (save_loop ser dir base report formats st)))
             (fmt \<mapsto> os_path_join dir (base @ ''.'' @ fmt))
      else map_of (fst (save_loop ser dir base report formats st)))"
proof (cases "save_loop ser dir base report formats st")
  case (Pair saved fs)
  then show ?thesis
    by (simp add: save_loop_append write_format_supported record_saved_map_of)
qed

lemma save_loop_dom:
  "k \<in> dom (map_of (fst (save_loop ser dir base report formats st))) \<longleftrightarrow>
     k \<in> dom (map_of (fst st))
     \<or> (\<exists>pre post. formats = pre @ k # post \<and> k \<in> set supported_formats
          \<and> fst (serializer_for ser k report (os_path_join dir (base @ ''.'' @ k))
                  (snd (save_loop ser dir base report pre st))) = None)"
proof (induction formats rule: rev_induct)
  case Nil
  then show ?case by simp
next
  case (snoc fmt formats)
  let ?ok = "\<lambda>pre. k \<in> set supported_formats
          \<and> fst (serializer_for ser k report (os_path_join dir (base @ ''.'' @ k))
                  (snd (save_loop ser dir base report pre st))) = None"
  have split: "(\<exists>pre post. formats @ [fmt] = pre @ k # post \<and> ?ok pre)
        \<longleftrightarrow> (\<exists>pre post. formats = pre @ k # post \<and> ?ok pre) \<or> (fmt = k \<and> ?ok formats)"
  proof
    assume "\<exists>pre post. formats @ [fmt] = pre @ k # post \<and> ?ok pre"
    then obtain pre post where e: "formats @ [fmt] = pre @ k # post" and ok: "?ok pre"
      by blast
    show "(\<exists>pre post. formats = pre @ k # post \<and> ?ok pre) \<or> (fmt = k \<and> ?ok formats)"
    proof (cases post rule: rev_cases)
      case Nil
      with e have "formats = pre" "fmt = k" by simp_all
      with ok show ?thesis by simp
    next
      case (snoc post' x)
      with e have "formats = pre @ k # post'" by simp
      with ok show ?thesis by blast
    qed
  next
    assume "(\<exists>pre post. formats = pre @ k # post \<and> ?ok pre) \<or> (fmt = k \<and> ?ok formats)"
    then show "\<exists>pre post. formats @ [fmt] = pre @ k # post \<and> ?ok pre"
    proof
      assume "\<exists>pre post. formats = pre @ k # post \<and> ?ok pre"
      then obtain pre post where "formats = pre @ k # post" and ok: "?ok pre" by blast
      then have "formats @ [fmt] = pre @ k # (post @ [fmt])" by simp
      with ok show ?thesis by blast
    next
      assume "fmt = k \<and> ?ok formats"
      then have "formats @ [fmt] = formats @ k # []" and "?ok formats" by simp_all
      then show ?thesis by blast
    qed
  qed
  have "k \<in> dom (map_of (fst (save_loop ser dir base report (formats @ [fmt]) st)))
        \<longleftrightarrow> k \<in> dom (map_of (fst (save_loop ser dir base report formats st)))
            \<or> (fmt = k \<and> ?ok formats)"
    unfolding save_loop_snoc_map_of by auto
  then show ?case
    unfolding snoc.IH split by blast
qed

lemma save_loop_paths:
  "map_of (fst (save_loop ser dir base report formats st)) k = Some p \<Longrightarrow>
     map_of (fst st) k = Some p
     \<or> (k \<in> set formats \<and> k \<in> set supported_formats \<and> p = os_path_join dir (base @ ''.'' @ k))"
proof (induction formats arbitrary: p rule: rev_induct)
  case Nil
  then show ?case by simp
next
  case (snoc fmt formats)
  from snoc.prems show ?case
    unfolding save_loop_snoc_map_of
    by (auto split: if_splits dest: snoc.IH)
qed

lemma save_loop_distinct:
  "distinct (map fst (fst st)) \<Longrightarrow>
     distinct (map fst (fst (save_loop ser dir base report formats st)))"
proof (induction formats arbitrary: st)
  case Nil
  then show ?case by simp
next
  case (Cons fmt formats)
  obtain saved fs where st: "st = (saved, fs)" by (cases st)
  show ?case
  proof (cases "fmt \<in> set supported_formats")
    case True
    with Cons.prems st show ?thesis
      by (simp add: write_format_supported Cons.IH record_saved_distinct)
  next
    case False
    with Cons.prems show ?thesis
      by (simp add: Cons.IH)
  qed
qed

lemma strftime_microsecond: "strftime (now\<lparr>microsecond := us\<rparr>) = strftime now"
  by (simp add: strftime_def)

subsection \<open>Letter case, numerals and timestamps\<close>

lemma special_code_points:
  "KELVIN_SIGN = utf8 [0x212A]"
  "CAPITAL_I_WITH_DOT_ABOVE = utf8 [0x130]"
  "COMBINING_DOT_ABOVE = utf8 [0x307]"
  by (simp_all add: KELVIN_SIGN_def CAPITAL_I_WITH_DOT_ABOVE_def COMBINING_DOT_ABOVE_def
      utf8_def utf8_char_def char_of_bits)

lemma lower_kelvin_sign: "lower (''hac'' @ KELVIN_SIGN @ ''.apk'') = ''hack.apk''"
  by code_simp

lemma lower_capital_i_with_dot: "lower (''W'' @ CAPITAL_I_WITH_DOT_ABOVE @ ''Fi'') = ''wi'' @ COMBINING_DOT_ABOVE @ ''fi''"
  by code_simp

lemma digits_table:
  "\<forall>d \<in> set [0..<10]. digit_value (''0123456789'' ! d) = d \<and> is_digit (''0123456789'' ! d)"
  by code_simp

lemma digit_value_digit: "d < 10 \<Longrightarrow> digit_value (''0123456789'' ! d) = d"
  using digits_table by simp

lemma is_digit_digit: "d < 10 \<Longrightarrow> is_digit (''0123456789'' ! d)"
  using digits_table by simp

lemma numeral_value_snoc: "numeral_value (s @ [c]) = 10 * numeral_value s + digit_value c"
  by (simp add: numeral_value_def)

lemma numeral_value_decimal: "numeral_value (decimal n) = n"
proof (induction n rule: decimal.induct)
  case (1 n)
  show ?case
  proof (cases "n < 10")
    case True
    then show ?thesis
      by (subst decimal.simps) (simp add: numeral_value_def digit_value_digit)
  next
    case False
    then have "numeral_value (decimal (n div 10)) = n div 10" using 1 by simp
    with False show ?thesis
      by (subst decimal.simps) (simp add: numeral_value_snoc digit_value_digit)
  qed
qed

lemma digits_decimal: "list_all is_digit (decimal n)"
proof (induction n rule: decimal.induct)
  case (1 n)
  show ?case
  proof (cases "n < 10")
    case True
    then show ?thesis by (subst decimal.simps) (simp add: is_digit_digit)
  next
    case False
    then have "list_all is_digit (decimal (n div 10))" using 1 by simp
    with False show ?thesis by (subst decimal.simps) (simp add: is_digit_digit)
  qed
qed

lemma decimal_nonempty: "decimal n \<noteq> []"
  by (subst decimal.simps) simp

lemma cites_decimal: "cites (decimal n) n"
  by (simp add: cites_def decimal_nonempty digits_decimal numeral_value_decimal)

lemma length_decimal: "n < 10 ^ w \<Longrightarrow> 0 < w \<Longrightarrow> length (decimal n) \<le> w"
proof (induction n arbitrary: w rule: decimal.induct)
  case (1 n)
  show ?case
  proof (cases "n < 10")
    case True
    with 1(3) show ?thesis by (subst decimal.simps) simp
  next
    case False
    from 1(3) obtain v where w: "w = Suc v" by (cases w) auto
    with False 1(2) have v: "0 < v" by (cases v) auto
    from 1(2) w have "n div 10 < 10 ^ v" by (simp add: less_mult_imp_div_less mult.commute)
    from 1(1)[OF False this v] have "length (decimal (n div 10)) \<le> v" .
    with False w show ?thesis by (subst decimal.simps) simp
  qed
qed

lemma numeral_value_zeros: "numeral_value (replicate k (CHR ''0'') @ s) = numeral_value s"
proof -
  have "foldl (\<lambda>n c. 10 * n + digit_value c) 0 (replicate k (CHR ''0'')) = 0"
    by (induction k) (simp_all add: digit_value_def)
  then show ?thesis by (simp add: numeral_value_def)
qed


lemma length_zero_pad: "n < 10 ^ w \<Longrightarrow> 0 < w \<Longrightarrow> length (zero_pad w n) = w"
  using length_decimal[of n w] by (simp add: zero_pad_def)

lemma numeral_value_zero_pad: "numeral_value (zero_pad w n) = n"
  by (simp add: zero_pad_def numeral_value_zeros numeral_value_decimal)

lemma digits_zero_pad: "list_all is_digit (zero_pad w n)"
proof -
  have "is_digit (CHR ''0'')" by (simp add: is_digit_def)
  then have "list_all is_digit (replicate k (CHR ''0''))" for k
    by (induction k) simp_all
  then show ?thesis by (simp add: zero_pad_def digits_decimal)
qed

lemma strftime_fields:
  assumes "is_clock_reading now"
  shows "is_timestamp (strftime now)"
    and "timestamp_fields (strftime now)
           = [year now, month now, day now, hour now, minute now, second now]"
proof -
  from assms have l: "length (zero_pad 4 (year now)) = 4" "length (zero_pad 2 (month now)) = 2"
    "length (zero_pad 2 (day now)) = 2" "length (zero_pad 2 (hour now)) = 2"
    "length (zero_pad 2 (minute now)) = 2" "length (zero_pad 2 (second now)) = 2"
    by (simp_all add: is_clock_reading_def length_zero_pad)
  show "is_timestamp (strftime now)"
    by (simp add: is_timestamp_def strftime_def l digits_zero_pad nth_append)
  show "timestamp_fields (strftime now)
           = [year now, month now, day now, hour now, minute now, second now]"
    by (simp add: timestamp_fields_def strftime_def l numeral_value_zero_pad)
qed

lemma strftime_same_second:
  assumes "is_clock_reading now" and "is_clock_reading now'"
  shows "strftime now = strftime now'
     \<longleftrightarrow> year now = year now' \<and> month now = month now' \<and> day now = day now'
         \<and> hour now = hour now' \<and> minute now = minute now' \<and> second now = second now'"
proof
  assume "strftime now = strftime now'"
  then have "timestamp_fields (strftime now) = timestamp_fields (strftime now')" by simp
  then show "year now = year now' \<and> month now = month now' \<and> day now = day now'
         \<and> hour now = hour now' \<and> minute now = minute now' \<and> second now = second now'"
    unfolding strftime_fields(2)[OF assms(1)] strftime_fields(2)[OF assms(2)] by simp
next
  assume "year now = year now' \<and> month now = month now' \<and> day now = day now'
         \<and> hour now = hour now' \<and> minute now = minute now' \<and> second now = second now'"
  then show "strftime now = strftime now'" by (simp add: strftime_def)
qed

section \<open>The claims\<close>

subsection \<open>Composer-level tier\<close>

text \<open>
  Claim C1. Whenever composition returns a report, the risk level of its security
  assessment is high when the score is at least 7 or at least 3 permissions are
  dangerous, else medium when the score is at least 4 or at least 1 permission is
  dangerous, else low; the score and the count are those the assessment records, the
  score of the scorer and the length of the extraction. For CleanApp.apk with the
  permissions READ_SMS and CAMERA the score is 2 and the tier medium.
\<close>

theorem composed_risk_level:
  assumes "compose_report analysis_date apk_info analysis_data = report"
      and "report \<noteq> PDict []"
  shows "\<exists>permissions dangerous score.
           dict_get analysis_data ''Permissions'' (PList []) = Inr permissions
         \<and> extract_dangerous_permissions permissions = Inr dangerous
         \<and> calculate_suspicious_score apk_info analysis_data = Inr score
         \<and> field2 report ''security_assessment'' ''suspicious_score'' = Some (PInt score)
         \<and> field2 report ''security_assessment'' ''dangerous_permissions_count''
             = Some (PInt (int (length dangerous)))
         \<and> field2 report ''security_assessment'' ''risk_level''
             = Some (PStr (if score \<ge> 7 \<or> length dangerous \<ge> 3 then RISK_HIGH
                           else if score \<ge> 4 \<or> length dangerous \<ge> 1 then RISK_MEDIUM
                           else RISK_LOW))"
proof -
  from compose_report_nonempty[OF assms]
  obtain apk_name apk_path file_size last_modified permissions n_perms dangerous intents
      activities score warnings
    where r: "dict_get analysis_data ''Permissions'' (PList []) = Inr permissions"
        "extract_dangerous_permissions permissions = Inr dangerous"
        "calculate_suspicious_score apk_info analysis_data = Inr score"
        "report = report_of analysis_date apk_name apk_path file_size last_modified
            permissions n_perms dangerous intents activities score warnings"
    unfolding compose_body_Inr by blast
  have "field2 report ''security_assessment'' ''suspicious_score'' = Some (PInt score)"
    and "field2 report ''security_assessment'' ''dangerous_permissions_count''
             = Some (PInt (int (length dangerous)))"
    and "field2 report ''security_assessment'' ''risk_level''
             = Some (PStr (if score \<ge> 7 \<or> length dangerous \<ge> 3 then RISK_HIGH
                           else if score \<ge> 4 \<or> length dangerous \<ge> 1 then RISK_MEDIUM
                           else RISK_LOW))"
    unfolding r(4) by (simp_all add: field2_def field_def report_of_def tier_def)
  with r(1-3) show ?thesis by blast
qed

theorem composed_risk_level_witness:
  "field2 (compose_report ''2026-11-04T12:00:00''
             (PDict [(''name'', PStr ''CleanApp.apk'')])
             (PDict [(''Permissions'',
                PList [PStr ''android.permission.READ_SMS'', PStr ''android.permission.CAMERA''])]))
          ''security_assessment'' ''risk_level'' = Some (PStr RISK_MEDIUM)
   \<and> field2 (compose_report ''2026-11-04T12:00:00''
             (PDict [(''name'', PStr ''CleanApp.apk'')])
             (PDict [(''Permissions'',
                PList [PStr ''android.permission.READ_SMS'', PStr ''android.permission.CAMERA''])]))
          ''security_assessment'' ''suspicious_score'' = Some (PInt 2)"
proof -
  let ?info = "PDict [(''name'', PStr ''CleanApp.apk'')]"
  let ?perms = "[''android.permission.READ_SMS'', ''android.permission.CAMERA'']"
  let ?data = "PDict [(''Permissions'', PList (map PStr ?perms))]"
  let ?report = "compose_report ''2026-11-04T12:00:00'' ?info ?data"
  have a: "dict_get ?info ''name'' (PStr '''') = Inr (PStr ''CleanApp.apk'')"
    by (simp add: dict_get_def)
  have b: "dict_get ?data ''Permissions'' (PList []) = Inr (PList (map PStr ?perms))"
    by (simp add: dict_get_def)
  have k: "keyword_hits ''CleanApp.apk'' = 0"
    by code_simp
  have d1: "is_dangerous_permission ''android.permission.READ_SMS''"
    by code_simp
  have d2: "is_dangerous_permission ''android.permission.CAMERA''"
    by code_simp
  have s: "calculate_suspicious_score ?info ?data = Inr 2"
    using score_typed[OF a b] by (simp add: k count_dangerous_def d1 d2)
  have i: "dict_get ?data ''Intents'' (PDict []) = Inr (PDict [])"
    by (simp add: dict_get_def)
  have l: "py_len (PDict []) = Inr 0"
    by (simp add: py_len_def)
  have ne: "?report \<noteq> PDict []"
    using compose_report_typed_nonempty[OF a b _ l] i by simp
  from composed_risk_level[OF refl ne]
  obtain permissions dangerous score where
      p: "dict_get ?data ''Permissions'' (PList []) = Inr permissions"
    and d: "extract_dangerous_permissions permissions = Inr dangerous"
    and c: "calculate_suspicious_score ?info ?data = Inr score"
    and sc: "field2 ?report ''security_assessment'' ''suspicious_score'' = Some (PInt score)"
    and rl: "field2 ?report ''security_assessment'' ''risk_level''
             = Some (PStr (if score \<ge> 7 \<or> length dangerous \<ge> 3 then RISK_HIGH
                           else if score \<ge> 4 \<or> length dangerous \<ge> 1 then RISK_MEDIUM
                           else RISK_LOW))"
    by blast
  from p b have "permissions = PList (map PStr ?perms)" by simp
  have e: "extract_dangerous_permissions (PList (map PStr ?perms)) = Inr (map PStr ?perms)"
    using extract_str_list[of ?perms] by (simp add: d1 d2)
  from p b have "permissions = PList (map PStr ?perms)" by simp
  with d e have dl: "dangerous = map PStr ?perms"
    by simp
  from c s have "score = 2" by simp
  with sc rl dl show ?thesis by simp
qed

subsection \<open>Suspicious score\<close>

text \<open>
  Claim C2. For an application name and a list of permissions, the score is
  \<open>min(floor((keyword_hits + dangerous_count * 0.5) * 2), 10)\<close>, with the keywords
  counted that the name contains, letter case aside, and the permissions counted that
  are dangerous; it lies between 0 and 10. The name FreePremiumHack.apk without
  permissions scores 6; a name that spells hack with the Kelvin sign for its last letter
  scores 2.
\<close>

theorem suspicious_score_formula:
  assumes "dict_get apk_info ''name'' (PStr '''') = Inr (PStr name)"
      and "dict_get analysis_data ''Permissions'' (PList []) = Inr (PList (map PStr perms))"
  shows "calculate_suspicious_score apk_info analysis_data
           = Inr (min \<lfloor>(of_nat (keyword_hits name) + of_nat (count_dangerous perms) * (1 / 2 :: rat)) * 2\<rfloor> 10)
         \<and> 0 \<le> min \<lfloor>(of_nat (keyword_hits name) + of_nat (count_dangerous perms) * (1 / 2 :: rat)) * 2\<rfloor> 10
         \<and> min \<lfloor>(of_nat (keyword_hits name) + of_nat (count_dangerous perms) * (1 / 2 :: rat)) * 2\<rfloor> (10::int) \<le> 10"
proof -
  have eq: "(of_nat (keyword_hits name) + of_nat (count_dangerous perms) * (1 / 2 :: rat)) * 2
            = of_int (int (2 * keyword_hits name + count_dangerous perms))"
    by (simp add: algebra_simps)
  have fl: "\<lfloor>(of_nat (keyword_hits name) + of_nat (count_dangerous perms) * (1 / 2 :: rat)) * 2\<rfloor>
            = int (2 * keyword_hits name + count_dangerous perms)"
    unfolding eq by (rule floor_of_int)
  show ?thesis
    unfolding fl using score_typed[OF assms] by simp
qed

theorem suspicious_score_formula_witness:
  "calculate_suspicious_score (PDict [(''name'', PStr ''FreePremiumHack.apk'')])
     (PDict [(''Permissions'', PList [])]) = Inr 6
   \<and> calculate_suspicious_score (PDict [(''name'', PStr (''hac'' @ KELVIN_SIGN @ ''.apk''))])
     (PDict []) = Inr 2"
proof -
  have k: "keyword_hits ''FreePremiumHack.apk'' = 3"
    by code_simp
  have d: "count_dangerous [] = 0"
    by (simp add: count_dangerous_def)
  have a: "dict_get (PDict [(''name'', PStr ''FreePremiumHack.apk'')]) ''name'' (PStr '''')
             = Inr (PStr ''FreePremiumHack.apk'')"
    by (simp add: dict_get_def)
  have b: "dict_get (PDict [(''Permissions'', PList [])]) ''Permissions'' (PList [])
             = Inr (PList (map PStr []))"
    by (simp add: dict_get_def)
  have k': "keyword_hits (''hac'' @ KELVIN_SIGN @ ''.apk'') = 1"
    by code_simp
  have a': "dict_get (PDict [(''name'', PStr (''hac'' @ KELVIN_SIGN @ ''.apk''))]) ''name''
              (PStr '''') = Inr (PStr (''hac'' @ KELVIN_SIGN @ ''.apk''))"
    by (simp add: dict_get_def)
  have b': "dict_get (PDict []) ''Permissions'' (PList []) = Inr (PList (map PStr []))"
    by (simp add: dict_get_def)
  have "calculate_suspicious_score (PDict [(''name'', PStr ''FreePremiumHack.apk'')])
     (PDict [(''Permissions'', PList [])]) = Inr 6"
    using suspicious_score_formula[OF a b] unfolding k d by simp
  moreover have "calculate_suspicious_score
     (PDict [(''name'', PStr (''hac'' @ KELVIN_SIGN @ ''.apk''))]) (PDict []) = Inr 2"
    using suspicious_score_formula[OF a' b'] unfolding k' d by simp
  ultimately show ?thesis by simp
qed

subsection \<open>Dangerous-permission extraction\<close>

text \<open>
  Claim C3 says that no permission appears twice in the output, for lists that may hold
  duplicates. A dangerous permission that the list holds twice is returned twice.
\<close>

theorem extract_repeats_counterexample:
  "extract_dangerous_permissions
     (PList [PStr ''android.permission.CAMERA'', PStr ''android.permission.CAMERA''])
   = Inr [PStr ''android.permission.CAMERA'', PStr ''android.permission.CAMERA'']
   \<and> \<not> distinct [PStr ''android.permission.CAMERA'', PStr ''android.permission.CAMERA'']"
  by code_simp

text \<open>
  Claim C3, amended. On a list of permissions, extraction returns the entries that, letter
  case aside, contain an entry of the table: the list filtered by that test, each
  occurrence tested once. The output is a subsequence of the input in its order, holds no
  permission more often than the input does, and has no repetition when the input has
  none.
\<close>

theorem extract_dangerous_permissions_filter:
  "extract_dangerous_permissions (PList (map PStr perms))
     = Inr (map PStr (filter is_dangerous_permission perms))
   \<and> subseq (filter is_dangerous_permission perms) perms
   \<and> count_list (filter is_dangerous_permission perms) p \<le> count_list perms p
   \<and> (distinct perms \<longrightarrow> distinct (filter is_dangerous_permission perms))"
  by (simp add: extract_str_list count_list_filter_le)

theorem extract_dangerous_permissions_filter_witness:
  "extract_dangerous_permissions
     (PList [PStr ''android.permission.INTERNET'', PStr ''android.permission.CAMERA'',
             PStr ''com.example.read_sms'', PStr ''android.permission.CAMERA''])
     = Inr [PStr ''android.permission.CAMERA'', PStr ''com.example.read_sms'',
            PStr ''android.permission.CAMERA'']
   \<and> subseq [''android.permission.CAMERA'', ''com.example.read_sms'', ''android.permission.CAMERA'']
        [''android.permission.INTERNET'', ''android.permission.CAMERA'',
         ''com.example.read_sms'', ''android.permission.CAMERA'']"
proof -
  have f: "filter is_dangerous_permission
             [''android.permission.INTERNET'', ''android.permission.CAMERA'',
              ''com.example.read_sms'', ''android.permission.CAMERA'']
           = [''android.permission.CAMERA'', ''com.example.read_sms'',
              ''android.permission.CAMERA'']"
    by code_simp
  show ?thesis
    using extract_dangerous_permissions_filter
      [of "[''android.permission.INTERNET'', ''android.permission.CAMERA'',
            ''com.example.read_sms'', ''android.permission.CAMERA'']" "''x''"]
    unfolding f by simp
qed

subsection \<open>Consistency of a composed report\<close>

text \<open>
  Claim C4. In every report that composition returns, the total of the statistics, the
  total of the permissions section and the length of the permission list are one number;
  the dangerous count of the statistics, the length of the dangerous list and the count
  of the security assessment are one number; the two scores are one number; and the
  dangerous list is a subsequence, in order, of the permissions the list holds.
\<close>

theorem composed_report_invariants:
  assumes "compose_report analysis_date apk_info analysis_data = report"
      and "report \<noteq> PDict []"
  shows "\<exists>permissions items dangerous n score.
           field2 report ''permissions'' ''list'' = Some permissions
         \<and> py_len permissions = Inr n
         \<and> field2 report ''permissions'' ''total'' = Some (PInt (int n))
         \<and> field2 report ''statistics'' ''total_permissions'' = Some (PInt (int n))
         \<and> field2 report ''permissions'' ''dangerous'' = Some (PList dangerous)
         \<and> field2 report ''statistics'' ''dangerous_permissions''
             = Some (PInt (int (length dangerous)))
         \<and> field2 report ''security_assessment'' ''dangerous_permissions_count''
             = Some (PInt (int (length dangerous)))
         \<and> field2 report ''statistics'' ''suspicious_score'' = Some (PInt score)
         \<and> field2 report ''security_assessment'' ''suspicious_score'' = Some (PInt score)
         \<and> py_iter permissions = Inr items
         \<and> subseq dangerous items"
proof -
  from compose_report_nonempty[OF assms]
  obtain apk_name apk_path file_size last_modified permissions n dangerous intents
      activities score warnings
    where r: "py_len permissions = Inr n"
        "extract_dangerous_permissions permissions = Inr dangerous"
        "report = report_of analysis_date apk_name apk_path file_size last_modified
            permissions n dangerous intents activities score warnings"
    unfolding compose_body_Inr by blast
  from extract_subseq[OF r(2)] obtain items where
    i: "py_iter permissions = Inr items" "subseq dangerous items"
    by blast
  have "field2 report ''permissions'' ''list'' = Some permissions"
    and "field2 report ''permissions'' ''total'' = Some (PInt (int n))"
    and "field2 report ''statistics'' ''total_permissions'' = Some (PInt (int n))"
    and "field2 report ''permissions'' ''dangerous'' = Some (PList dangerous)"
    and "field2 report ''statistics'' ''dangerous_permissions''
             = Some (PInt (int (length dangerous)))"
    and "field2 report ''security_assessment'' ''dangerous_permissions_count''
             = Some (PInt (int (length dangerous)))"
    and "field2 report ''statistics'' ''suspicious_score'' = Some (PInt score)"
    and "field2 report ''security_assessment'' ''suspicious_score'' = Some (PInt score)"
    unfolding r(3) by (simp_all add: field2_def field_def report_of_def)
  with r(1) i show ?thesis by blast
qed

theorem composed_report_invariants_witness:
  "field2 (compose_report ''2026-11-04T12:00:00''
             (PDict [(''name'', PStr ''Notes.apk'')])
             (PDict [(''Permissions'',
                PList [PStr ''android.permission.INTERNET'', PStr ''android.permission.CAMERA''])]))
          ''statistics'' ''total_permissions'' = Some (PInt 2)
   \<and> field2 (compose_report ''2026-11-04T12:00:00''
             (PDict [(''name'', PStr ''Notes.apk'')])
             (PDict [(''Permissions'',
                PList [PStr ''android.permission.INTERNET'', PStr ''android.permission.CAMERA''])]))
          ''statistics'' ''dangerous_permissions'' = Some (PInt 1)
   \<and> field2 (compose_report ''2026-11-04T12:00:00''
             (PDict [(''name'', PStr ''Notes.apk'')])
             (PDict [(''Permissions'',
                PList [PStr ''android.permission.INTERNET'', PStr ''android.permission.CAMERA''])]))
          ''permissions'' ''dangerous'' = Some (PList [PStr ''android.permission.CAMERA''])"
proof -
  let ?info = "PDict [(''name'', PStr ''Notes.apk'')]"
  let ?perms = "[''android.permission.INTERNET'', ''android.permission.CAMERA'']"
  let ?data = "PDict [(''Permissions'', PList (map PStr ?perms))]"
  let ?report = "compose_report ''2026-11-04T12:00:00'' ?info ?data"
  have a: "dict_get ?info ''name'' (PStr '''') = Inr (PStr ''Notes.apk'')"
    by (simp add: dict_get_def)
  have b: "dict_get ?data ''Permissions'' (PList []) = Inr (PList (map PStr ?perms))"
    by (simp add: dict_get_def)
  have i: "dict_get ?data ''Intents'' (PDict []) = Inr (PDict [])"
    by (simp add: dict_get_def)
  have l: "py_len (PDict []) = Inr 0"
    by (simp add: py_len_def)
  have d1: "\<not> is_dangerous_permission ''android.permission.INTERNET''"
    by code_simp
  have d2: "is_dangerous_permission ''android.permission.CAMERA''"
    by code_simp
  obtain ws where ws: "generate_warnings ?info ?data = Inr ws"
    using warnings_typed[OF a b] by simp
  have rep: "field2 ?report ''permissions'' ''list'' = Some (PList (map PStr ?perms))"
       "field2 ?report ''permissions'' ''dangerous'' = Some (PList [PStr ''android.permission.CAMERA''])"
    using compose_report_typed[OF a b i l ws, of "''2026-11-04T12:00:00''"]
    by (simp_all add: field2_def field_def report_of_def d1 d2)
  have ne: "?report \<noteq> PDict []"
    using compose_report_typed_nonempty[OF a b i l] by simp
  from composed_report_invariants[OF refl ne]
  obtain permissions items dangerous n score where
      f1: "field2 ?report ''permissions'' ''list'' = Some permissions"
    and f2: "py_len permissions = Inr n"
    and f3: "field2 ?report ''statistics'' ''total_permissions'' = Some (PInt (int n))"
    and f4: "field2 ?report ''permissions'' ''dangerous'' = Some (PList dangerous)"
    and f5: "field2 ?report ''statistics'' ''dangerous_permissions''
             = Some (PInt (int (length dangerous)))"
    by blast
  from f1 rep(1) have "permissions = PList (map PStr ?perms)" by simp
  with f2 have n: "n = 2" by (simp add: py_len_def)
  from f4 rep(2) have d: "dangerous = [PStr ''android.permission.CAMERA'']" by simp
  from f3 f4 f5 n d show ?thesis by simp
qed

subsection \<open>Warnings\<close>

text \<open>
  Claim C5. The warnings are, in this order: one on the dangerous permissions when there
  is one, which reads Obnaruzheno, the number of them, opasnykh razreshenij; one on the
  name when its lower case contains a keyword of the table, which reads Podozritel'noe
  klyuchevoe slovo v imeni, a colon and, between single quotes, the first such keyword of
  the table and no other; one on the permissions when there are more than 20, which reads
  Bol'shoe kolichestvo razreshenij, a colon and the number of them. The numbers are cited
  as decimal numerals. There are at most three warnings, one for each condition.
\<close>

theorem warnings_in_order:
  assumes "dict_get apk_info ''name'' (PStr '''') = Inr (PStr name)"
      and "dict_get analysis_data ''Permissions'' (PList []) = Inr (PList (map PStr perms))"
  shows "generate_warnings apk_info analysis_data =
           Inr ((if count_dangerous perms > 0
                 then [utf8 [0x41E, 0x431, 0x43D, 0x430, 0x440, 0x443, 0x436, 0x435, 0x43D,
                       0x43E, 0x20]
                       @ decimal (count_dangerous perms) @
                       utf8 [0x20, 0x43E, 0x43F, 0x430, 0x441, 0x43D, 0x44B, 0x445, 0x20, 0x440,
                       0x430, 0x437, 0x440, 0x435, 0x448, 0x435, 0x43D, 0x438, 0x439]]
                 else [])
              @ (case find (\<lambda>keyword. sublist keyword (lower name)) suspicious_keywords of
                   None \<Rightarrow> []
                 | Some keyword \<Rightarrow>
                     [utf8 [0x41F, 0x43E, 0x434, 0x43E, 0x437, 0x440, 0x438, 0x442, 0x435,
                      0x43B, 0x44C, 0x43D, 0x43E, 0x435, 0x20, 0x43A, 0x43B, 0x44E, 0x447,
                      0x435, 0x432, 0x43E, 0x435, 0x20, 0x441, 0x43B, 0x43E, 0x432, 0x43E, 0x20,
                      0x432, 0x20, 0x438, 0x43C, 0x435, 0x43D, 0x438, 0x3A, 0x20, 0x27]
                      @ keyword @ utf8 [0x27]])
              @ (if length perms > 20
                 then [utf8 [0x411, 0x43E, 0x43B, 0x44C, 0x448, 0x43E, 0x435, 0x20, 0x43A,
                       0x43E, 0x43B, 0x438, 0x447, 0x435, 0x441, 0x442, 0x432, 0x43E, 0x20,
                       0x440, 0x430, 0x437, 0x440, 0x435, 0x448, 0x435, 0x43D, 0x438, 0x439,
                       0x3A, 0x20]
                       @ decimal (length perms)]
                 else []))
         \<and> (case generate_warnings apk_info analysis_data of
               Inl e \<Rightarrow> False | Inr warnings \<Rightarrow> length warnings \<le> 3)
         \<and> cites (decimal (count_dangerous perms)) (count_dangerous perms)
         \<and> cites (decimal (length perms)) (length perms)"
proof -
  have w: "generate_warnings apk_info analysis_data =
           Inr ((if count_dangerous perms > 0 then [warning_dangerous (count_dangerous perms)]
                 else [])
              @ (case find (\<lambda>keyword. sublist keyword (lower name)) suspicious_keywords of
                   None \<Rightarrow> [] | Some keyword \<Rightarrow> [warning_keyword keyword])
              @ (if length perms > 20 then [warning_many (length perms)] else []))"
    using warnings_typed[OF assms] .
  show ?thesis
    unfolding w
    by (simp add: warning_dangerous_def warning_keyword_def warning_many_def cites_decimal
        split: option.splits)
qed

theorem warnings_in_order_witness:
  "generate_warnings (PDict [(''name'', PStr ''ModHack.apk'')])
     (PDict [(''Permissions'',
        PList (map PStr (replicate 20 ''android.permission.INTERNET''
                         @ [''android.permission.CAMERA'']))) ])
   = Inr [utf8 [0x41E, 0x431, 0x43D, 0x430, 0x440, 0x443, 0x436, 0x435, 0x43D, 0x43E, 0x20]
          @ ''1'' @
          utf8 [0x20, 0x43E, 0x43F, 0x430, 0x441, 0x43D, 0x44B, 0x445, 0x20, 0x440, 0x430,
          0x437, 0x440, 0x435, 0x448, 0x435, 0x43D, 0x438, 0x439],
          utf8 [0x41F, 0x43E, 0x434, 0x43E, 0x437, 0x440, 0x438, 0x442, 0x435, 0x43B, 0x44C,
          0x43D, 0x43E, 0x435, 0x20, 0x43A, 0x43B, 0x44E, 0x447, 0x435, 0x432, 0x43E, 0x435,
          0x20, 0x441, 0x43B, 0x43E, 0x432, 0x43E, 0x20, 0x432, 0x20, 0x438, 0x43C, 0x435,
          0x43D, 0x438, 0x3A, 0x20, 0x27]
          @ ''hack'' @ utf8 [0x27],
          utf8 [0x411, 0x43E, 0x43B, 0x44C, 0x448, 0x43E, 0x435, 0x20, 0x43A, 0x43E, 0x43B,
          0x438, 0x447, 0x435, 0x441, 0x442, 0x432, 0x43E, 0x20, 0x440, 0x430, 0x437, 0x440,
          0x435, 0x448, 0x435, 0x43D, 0x438, 0x439, 0x3A, 0x20]
          @ ''21'']
   \<and> generate_warnings (PDict [(''name'', PStr (''hac'' @ KELVIN_SIGN @ ''.apk''))]) (PDict [])
   = Inr [utf8 [0x41F, 0x43E, 0x434, 0x43E, 0x437, 0x440, 0x438, 0x442, 0x435, 0x43B, 0x44C,
          0x43D, 0x43E, 0x435, 0x20, 0x43A, 0x43B, 0x44E, 0x447, 0x435, 0x432, 0x43E, 0x435,
          0x20, 0x441, 0x43B, 0x43E, 0x432, 0x43E, 0x20, 0x432, 0x20, 0x438, 0x43C, 0x435,
          0x43D, 0x438, 0x3A, 0x20, 0x27]
          @ ''hack'' @ utf8 [0x27]]
   \<and> cites ''21'' 21"
proof -
  let ?perms = "replicate 20 ''android.permission.INTERNET'' @ [''android.permission.CAMERA'']"
  have a: "dict_get (PDict [(''name'', PStr ''ModHack.apk'')]) ''name'' (PStr '''')
             = Inr (PStr ''ModHack.apk'')"
    by (simp add: dict_get_def)
  have b: "dict_get (PDict [(''Permissions'', PList (map PStr ?perms))]) ''Permissions'' (PList [])
             = Inr (PList (map PStr ?perms))"
    by (simp add: dict_get_def)
  have d1: "\<not> is_dangerous_permission ''android.permission.INTERNET''"
    by code_simp
  have d2: "is_dangerous_permission ''android.permission.CAMERA''"
    by code_simp
  have c: "count_dangerous ?perms = 1"
    by (simp add: count_dangerous_def d1 d2)
  have k: "find (\<lambda>keyword. sublist keyword (lower ''ModHack.apk'')) suspicious_keywords
             = Some ''hack''"
    by code_simp
  have n: "length ?perms = 21"
    by simp
  have dec: "decimal 1 = ''1''" "decimal 21 = ''21''"
    by (simp_all add: decimal.simps)
  have first: "generate_warnings (PDict [(''name'', PStr ''ModHack.apk'')])
     (PDict [(''Permissions'', PList (map PStr ?perms))])
   = Inr [utf8 [0x41E, 0x431, 0x43D, 0x430, 0x440, 0x443, 0x436, 0x435, 0x43D, 0x43E, 0x20]
          @ ''1'' @
          utf8 [0x20, 0x43E, 0x43F, 0x430, 0x441, 0x43D, 0x44B, 0x445, 0x20, 0x440, 0x430,
          0x437, 0x440, 0x435, 0x448, 0x435, 0x43D, 0x438, 0x439],
          utf8 [0x41F, 0x43E, 0x434, 0x43E, 0x437, 0x440, 0x438, 0x442, 0x435, 0x43B, 0x44C,
          0x43D, 0x43E, 0x435, 0x20, 0x43A, 0x43B, 0x44E, 0x447, 0x435, 0x432, 0x43E, 0x435,
          0x20, 0x441, 0x43B, 0x43E, 0x432, 0x43E, 0x20, 0x432, 0x20, 0x438, 0x43C, 0x435,
          0x43D, 0x438, 0x3A, 0x20, 0x27]
          @ ''hack'' @ utf8 [0x27],
          utf8 [0x411, 0x43E, 0x43B, 0x44C, 0x448, 0x43E, 0x435, 0x20, 0x43A, 0x43E, 0x43B,
          0x438, 0x447, 0x435, 0x441, 0x442, 0x432, 0x43E, 0x20, 0x440, 0x430, 0x437, 0x440,
          0x435, 0x448, 0x435, 0x43D, 0x438, 0x439, 0x3A, 0x20]
          @ ''21'']"
    using warnings_in_order[OF a b, THEN conjunct1] unfolding c k n dec by simp
  have a': "dict_get (PDict [(''name'', PStr (''hac'' @ KELVIN_SIGN @ ''.apk''))]) ''name''
               (PStr '''') = Inr (PStr (''hac'' @ KELVIN_SIGN @ ''.apk''))"
    by (simp add: dict_get_def)
  have b': "dict_get (PDict []) ''Permissions'' (PList []) = Inr (PList (map PStr []))"
    by (simp add: dict_get_def)
  have k': "find (\<lambda>keyword. sublist keyword ''hack.apk'') suspicious_keywords = Some ''hack''"
    by code_simp
  have second: "generate_warnings (PDict [(''name'', PStr (''hac'' @ KELVIN_SIGN @ ''.apk''))])
       (PDict [])
   = Inr [utf8 [0x41F, 0x43E, 0x434, 0x43E, 0x437, 0x440, 0x438, 0x442, 0x435, 0x43B, 0x44C,
          0x43D, 0x43E, 0x435, 0x20, 0x43A, 0x43B, 0x44E, 0x447, 0x435, 0x432, 0x43E, 0x435,
          0x20, 0x441, 0x43B, 0x43E, 0x432, 0x43E, 0x20, 0x432, 0x20, 0x438, 0x43C, 0x435,
          0x43D, 0x438, 0x3A, 0x20, 0x27]
          @ ''hack'' @ utf8 [0x27]]"
    using warnings_in_order[OF a' b', THEN conjunct1]
    unfolding lower_kelvin_sign k' by (simp add: count_dangerous_def)
  have third: "cites ''21'' 21"
    using warnings_in_order[OF a b, THEN conjunct2, THEN conjunct2, THEN conjunct2]
    unfolding n dec .
  from first second third show ?thesis by simp
qed

subsection \<open>Recommendations\<close>

text \<open>
  Claim C6. The recommendations are a function of the report alone: of the risk level and
  the dangerous-permission count of its security assessment and of the length of its
  permission list. In this order, the rules add the do-not-install pair when the level is
  high, the dangerous-count pair when the count is positive and the excessive-permissions
  pair when the list has more than 25 entries; the reassuring statement is added when no
  rule fired, and only then, so the list is never empty. The recommendations of a composed
  report are those that the rules give on that report.
\<close>

theorem recommendations_from_assessment:
  "(generate_recommendations report = Inr recs \<longleftrightarrow>
      (\<exists>security risk_level count permissions perm_list n.
          dict_get report ''security_assessment'' (PDict []) = Inr security
        \<and> dict_get security ''risk_level'' PNone = Inr risk_level
        \<and> dict_get security ''dangerous_permissions_count'' (PInt 0) = Inr (PInt count)
        \<and> dict_get report ''permissions'' (PDict []) = Inr permissions
        \<and> dict_get permissions ''list'' (PList []) = Inr perm_list
        \<and> py_len perm_list = Inr n
        \<and> recs =
            (if risk_level = PStr RISK_HIGH then [REC_DO_NOT_INSTALL, REC_CROSS_CHECK] else [])
            @ (if count > 0 then [rec_dangerous (str_of_int count), REC_RECONSIDER] else [])
            @ (if n > 25 then [REC_TOO_MANY, REC_ALTERNATIVES] else [])
            @ (if risk_level \<noteq> PStr RISK_HIGH \<and> count \<le> 0 \<and> n \<le> 25
               then [REC_NO_THREATS] else [])))
   \<and> (generate_recommendations report = Inr recs \<longrightarrow>
        recs \<noteq> [] \<and> (REC_NO_THREATS \<in> set recs \<longleftrightarrow> recs = [REC_NO_THREATS]))
   \<and> (compose_report analysis_date apk_info analysis_data = report \<and> report \<noteq> PDict [] \<longrightarrow>
        (\<exists>composed. generate_recommendations report = Inr composed
           \<and> field report ''recommendations'' = Some (PList (map PStr composed))))"
proof (intro conjI impI)
  show "generate_recommendations report = Inr recs \<longleftrightarrow>
      (\<exists>security risk_level count permissions perm_list n.
          dict_get report ''security_assessment'' (PDict []) = Inr security
        \<and> dict_get security ''risk_level'' PNone = Inr risk_level
        \<and> dict_get security ''dangerous_permissions_count'' (PInt 0) = Inr (PInt count)
        \<and> dict_get report ''permissions'' (PDict []) = Inr permissions
        \<and> dict_get permissions ''list'' (PList []) = Inr perm_list
        \<and> py_len perm_list = Inr n
        \<and> recs =
            (if risk_level = PStr RISK_HIGH then [REC_DO_NOT_INSTALL, REC_CROSS_CHECK] else [])
            @ (if count > 0 then [rec_dangerous (str_of_int count), REC_RECONSIDER] else [])
            @ (if n > 25 then [REC_TOO_MANY, REC_ALTERNATIVES] else [])
            @ (if risk_level \<noteq> PStr RISK_HIGH \<and> count \<le> 0 \<and> n \<le> 25
               then [REC_NO_THREATS] else []))"
    unfolding generate_recommendations_Inr recommendation_rules_pieces ..
next
  assume "generate_recommendations report = Inr recs"
  then obtain risk_level count n where "recs = recommendation_rules risk_level count n"
    unfolding generate_recommendations_Inr by blast
  then show "recs \<noteq> []" and "REC_NO_THREATS \<in> set recs \<longleftrightarrow> recs = [REC_NO_THREATS]"
    by (simp_all only: recommendation_rules_nonempty no_threats_alone not_False_eq_True)
next
  assume "compose_report analysis_date apk_info analysis_data = report \<and> report \<noteq> PDict []"
  then have "compose_body analysis_date apk_info analysis_data = Inr report"
    using compose_report_nonempty by blast
  then obtain apk_name apk_path file_size last_modified permissions n dangerous intents
      activities score warnings
    where r: "py_len permissions = Inr n"
        "report = report_of analysis_date apk_name apk_path file_size last_modified
            permissions n dangerous intents activities score warnings"
    unfolding compose_body_Inr by blast
  have "generate_recommendations report
          = Inr (recommendation_rules (PStr (tier score (length dangerous)))
                  (int (length dangerous)) n)"
    unfolding r(2) by (rule recommendations_of_report_of[OF r(1)])
  moreover have "field report ''recommendations''
          = Some (PList (map PStr (recommendation_rules (PStr (tier score (length dangerous)))
                  (int (length dangerous)) n)))"
    unfolding r(2) by (simp add: field_def report_of_def)
  ultimately show "\<exists>composed. generate_recommendations report = Inr composed
           \<and> field report ''recommendations'' = Some (PList (map PStr composed))"
    by blast
qed

theorem recommendations_from_assessment_witness:
  "generate_recommendations
     (PDict [(''security_assessment'',
                PDict [(''risk_level'', PStr RISK_HIGH),
                       (''dangerous_permissions_count'', PInt 3)]),
             (''permissions'', PDict [(''list'', PList [])])])
   = Inr [REC_DO_NOT_INSTALL, REC_CROSS_CHECK, rec_dangerous ''3'', REC_RECONSIDER]
   \<and> REC_NO_THREATS
       \<notin> set [REC_DO_NOT_INSTALL, REC_CROSS_CHECK, rec_dangerous ''3'', REC_RECONSIDER]
   \<and> generate_recommendations (PDict []) = Inr [REC_NO_THREATS]
   \<and> field (compose_report ''2026-11-04T12:00:00'' (PDict []) (PDict [])) ''recommendations''
       = Some (PList [PStr REC_NO_THREATS])"
proof -
  let ?report = "PDict [(''security_assessment'',
                PDict [(''risk_level'', PStr RISK_HIGH),
                       (''dangerous_permissions_count'', PInt 3)]),
             (''permissions'', PDict [(''list'', PList [])])]"
  have three: "str_of_int 3 = ''3''"
    by (simp add: str_of_int_def decimal.simps)
  have first: "generate_recommendations ?report
          = Inr [REC_DO_NOT_INSTALL, REC_CROSS_CHECK, rec_dangerous ''3'', REC_RECONSIDER]"
    apply (rule recommendations_from_assessment
             [of ?report "[REC_DO_NOT_INSTALL, REC_CROSS_CHECK, rec_dangerous ''3'', REC_RECONSIDER]",
              THEN conjunct1, THEN iffD2])
    apply (rule exI[of _ "PDict [(''risk_level'', PStr RISK_HIGH),
                       (''dangerous_permissions_count'', PInt 3)]"])
    apply (rule exI[of _ "PStr RISK_HIGH"])
    apply (rule exI[of _ 3])
    apply (rule exI[of _ "PDict [(''list'', PList [])]"])
    apply (rule exI[of _ "PList []"])
    apply (rule exI[of _ 0])
    apply (simp add: dict_get_def py_len_def three)
    done
  have second: "generate_recommendations (PDict []) = Inr [REC_NO_THREATS]"
    apply (rule recommendations_from_assessment
             [of "PDict []" "[REC_NO_THREATS]", THEN conjunct1, THEN iffD2])
    apply (rule exI[of _ "PDict []"])
    apply (rule exI[of _ PNone])
    apply (rule exI[of _ 0])
    apply (rule exI[of _ "PDict []"])
    apply (rule exI[of _ "PList []"])
    apply (rule exI[of _ 0])
    apply (simp add: dict_get_def py_len_def)
    done
  from recommendations_from_assessment
         [of ?report "[REC_DO_NOT_INSTALL, REC_CROSS_CHECK, rec_dangerous ''3'', REC_RECONSIDER]",
          THEN conjunct2, THEN conjunct1] first
  have absent: "REC_NO_THREATS
       \<notin> set [REC_DO_NOT_INSTALL, REC_CROSS_CHECK, rec_dangerous ''3'', REC_RECONSIDER]"
    by blast
  let ?composed = "compose_report ''2026-11-04T12:00:00'' (PDict []) (PDict [])"
  have shape: "?composed = report_of ''2026-11-04T12:00:00'' (PStr ''Unknown'') (PStr [])
      (PInt 0) (PStr []) (PList []) 0 [] (PDict []) 0 0 []"
    by (rule compose_report_empty_inputs)
  have ne: "?composed \<noteq> PDict []"
    unfolding shape by (rule report_of_nonempty)
  from recommendations_from_assessment
         [of ?composed _ "''2026-11-04T12:00:00''" "PDict []" "PDict []",
          THEN conjunct2, THEN conjunct2] ne
  obtain composed where
      g: "generate_recommendations ?composed = Inr composed"
    and f: "field ?composed ''recommendations'' = Some (PList (map PStr composed))"
    by blast
  have "generate_recommendations ?composed
          = Inr (recommendation_rules (PStr (tier 0 (length ([] :: pyval list))))
                   (int (length ([] :: pyval list))) 0)"
    unfolding shape by (rule recommendations_of_report_of) (simp add: py_len_def)
  with g have "composed = [REC_NO_THREATS]"
    using risk_levels_distinct by (simp add: tier_def recommendation_rules_def)
  with f first second absent show ?thesis by simp
qed

subsection \<open>Batch save\<close>

text \<open>
  Claim C7. \<open>save_report\<close> always returns a mapping. A format outside json, csv, txt and
  html is skipped: the call does what it does on the supported formats of the request
  alone. The mapping holds a format exactly when the request names it, it is supported and
  its serializer returned on one of its turns; a serializer that raises leaves the mapping
  as it was and the loop goes on. Every path of the mapping joins the reports directory
  with the base name, an underscore, the timestamp of the call, a dot and the format: the
  file of that name in that directory, when the base name begins with no slash. The
  timestamp is read once, from the clock of the call. It has second resolution: it does
  not depend on the microseconds; it has the fifteen characters \<open>YYYYMMDD_HHMMSS\<close>, whose
  digits give the year, month, day, hour, minute and second of the reading; and two
  readings have the same timestamp exactly when they agree to the second. With no request
  the formats are json and txt. Requesting json and xml gives json alone.
\<close>

theorem save_report_mapping:
  "(map_of (fst (save_report ser reports_dir now report apk_name (Some formats) fs)) fmt = Some p
      \<longrightarrow> fmt \<in> set formats \<and> fmt \<in> set supported_formats
          \<and> p = os_path_join reports_dir (apk_name @ ''_'' @ strftime now @ ''.'' @ fmt))
   \<and> (fmt \<in> dom (map_of (fst (save_report ser reports_dir now report apk_name (Some formats) fs)))
      \<longleftrightarrow> (\<exists>pre post. formats = pre @ fmt # post \<and> fmt \<in> set supported_formats
             \<and> fst (serializer_for ser fmt report
                      (os_path_join reports_dir (apk_name @ ''_'' @ strftime now @ ''.'' @ fmt))
                      (snd (save_report ser reports_dir now report apk_name (Some pre) fs)))
                 = None))
   \<and> save_report ser reports_dir now report apk_name (Some formats) fs
       = save_report ser reports_dir now report apk_name
           (Some (filter (\<lambda>fmt. fmt \<in> set supported_formats) formats)) fs
   \<and> distinct (map fst (fst (save_report ser reports_dir now report apk_name (Some formats) fs)))
   \<and> save_report ser reports_dir now report apk_name None fs
       = save_report ser reports_dir now report apk_name (Some [''json'', ''txt'']) fs
   \<and> strftime (now\<lparr>microsecond := us\<rparr>) = strftime now
   \<and> (is_clock_reading now \<longrightarrow>
        is_timestamp (strftime now)
        \<and> timestamp_fields (strftime now)
            = [year now, month now, day now, hour now, minute now, second now])
   \<and> (is_clock_reading now \<and> is_clock_reading later \<longrightarrow>
        (strftime now = strftime later
         \<longleftrightarrow> year now = year later \<and> month now = month later \<and> day now = day later
             \<and> hour now = hour later \<and> minute now = minute later
             \<and> second now = second later))
   \<and> (reports_dir \<noteq> [] \<and> last reports_dir \<noteq> CHR ''/''
        \<and> (apk_name = [] \<or> hd apk_name \<noteq> CHR ''/'') \<longrightarrow>
        os_path_join reports_dir (apk_name @ ''_'' @ strftime now @ ''.'' @ fmt)
          = reports_dir @ ''/'' @ apk_name @ ''_'' @ strftime now @ ''.'' @ fmt)"
proof (intro conjI impI)
  assume "map_of (fst (save_report ser reports_dir now report apk_name (Some formats) fs)) fmt
            = Some p"
  then show "fmt \<in> set formats" and "fmt \<in> set supported_formats"
    and "p = os_path_join reports_dir (apk_name @ ''_'' @ strftime now @ ''.'' @ fmt)"
    by (auto simp: save_report_def dest: save_loop_paths)
next
  show "fmt \<in> dom (map_of (fst (save_report ser reports_dir now report apk_name (Some formats) fs)))
      \<longleftrightarrow> (\<exists>pre post. formats = pre @ fmt # post \<and> fmt \<in> set supported_formats
             \<and> fst (serializer_for ser fmt report
                      (os_path_join reports_dir (apk_name @ ''_'' @ strftime now @ ''.'' @ fmt))
                      (snd (save_report ser reports_dir now report apk_name (Some pre) fs)))
                 = None)"
    by (simp add: save_report_def save_loop_dom)
next
  show "save_report ser reports_dir now report apk_name (Some formats) fs
       = save_report ser reports_dir now report apk_name
           (Some (filter (\<lambda>fmt. fmt \<in> set supported_formats) formats)) fs"
    unfolding save_report_def Let_def option.case by (rule save_loop_filter)
next
  show "distinct (map fst (fst (save_report ser reports_dir now report apk_name (Some formats) fs)))"
    by (simp add: save_report_def save_loop_distinct)
next
  show "save_report ser reports_dir now report apk_name None fs
       = save_report ser reports_dir now report apk_name (Some [''json'', ''txt'']) fs"
    by (simp add: save_report_def)
next
  show "strftime (now\<lparr>microsecond := us\<rparr>) = strftime now"
    by (rule strftime_microsecond)
next
  assume "is_clock_reading now"
  then show "is_timestamp (strftime now)"
    and "timestamp_fields (strftime now)
            = [year now, month now, day now, hour now, minute now, second now]"
    by (rule strftime_fields)+
next
  assume "is_clock_reading now \<and> is_clock_reading later"
  then show "strftime now = strftime later
         \<longleftrightarrow> year now = year later \<and> month now = month later \<and> day now = day later
             \<and> hour now = hour later \<and> minute now = minute later
             \<and> second now = second later"
    by (simp add: strftime_same_second)
next
  assume "reports_dir \<noteq> [] \<and> last reports_dir \<noteq> CHR ''/''
        \<and> (apk_name = [] \<or> hd apk_name \<noteq> CHR ''/'')"
  then show "os_path_join reports_dir (apk_name @ ''_'' @ strftime now @ ''.'' @ fmt)
          = reports_dir @ ''/'' @ apk_name @ ''_'' @ strftime now @ ''.'' @ fmt"
    by (cases apk_name) (auto simp: os_path_join_def)
qed

theorem save_report_mapping_witness:
  "save_report
     \<lparr>json_serializer = \<lambda>report path fs. (None, path # fs),
      csv_serializer = \<lambda>report path fs. (Some OSError, fs),
      txt_serializer = \<lambda>report path fs. (None, path # fs),
      html_serializer = save_html (\<lambda>path document fs. (None, path # fs))\<rparr>
     ''analysis_reports''
     \<lparr>year = 2026, month = 11, day = 4, hour = 9, minute = 5, second = 7,
      microsecond = 123456\<rparr>
     (PDict []) ''Test'' (Some [''json'', ''xml'']) []
   = ([(''json'', ''analysis_reports/Test_20261104_090507.json'')],
      [''analysis_reports/Test_20261104_090507.json''])
   \<and> save_report
     \<lparr>json_serializer = \<lambda>report path fs. (None, path # fs),
      csv_serializer = \<lambda>report path fs. (Some OSError, fs),
      txt_serializer = \<lambda>report path fs. (None, path # fs),
      html_serializer = save_html (\<lambda>path document fs. (None, path # fs))\<rparr>
     ''analysis_reports''
     \<lparr>year = 2026, month = 11, day = 4, hour = 9, minute = 5, second = 7,
      microsecond = 123456\<rparr>
     (PDict []) ''Test'' (Some [''csv'', ''xml'', ''txt'']) []
   = ([(''txt'', ''analysis_reports/Test_20261104_090507.txt'')],
      [''analysis_reports/Test_20261104_090507.txt''])
   \<and> ''analysis_reports/Test_20261104_090507.json''
       = os_path_join ''analysis_reports''
           (''Test'' @ ''_'' @
            strftime \<lparr>year = 2026, month = 11, day = 4, hour = 9, minute = 5, second = 7,
                        microsecond = 123456\<rparr> @ ''.'' @ ''json'')
   \<and> save_report
     \<lparr>json_serializer = \<lambda>report path fs. (None, path # fs),
      csv_serializer = \<lambda>report path fs. (Some OSError, fs),
      txt_serializer = \<lambda>report path fs. (None, path # fs),
      html_serializer = save_html (\<lambda>path document fs. (None, path # fs))\<rparr>
     ''analysis_reports''
     \<lparr>year = 2026, month = 12, day = 31, hour = 23, minute = 59, second = 8,
      microsecond = 250000\<rparr>
     (PDict []) ''Test'' None []
   = ([(''json'', ''analysis_reports/Test_20261231_235908.json''),
       (''txt'', ''analysis_reports/Test_20261231_235908.txt'')],
      [''analysis_reports/Test_20261231_235908.txt'',
       ''analysis_reports/Test_20261231_235908.json''])
   \<and> is_timestamp ''20261104_090507''
   \<and> timestamp_fields ''20261104_090507'' = [2026, 11, 4, 9, 5, 7]
   \<and> strftime \<lparr>year = 2026, month = 11, day = 4, hour = 9, minute = 5, second = 7,
                  microsecond = 123456\<rparr>
       = strftime \<lparr>year = 2026, month = 11, day = 4, hour = 9, minute = 5, second = 7,
                    microsecond = 999999\<rparr>
   \<and> strftime \<lparr>year = 2026, month = 11, day = 4, hour = 9, minute = 5, second = 7,
                  microsecond = 123456\<rparr>
       \<noteq> strftime \<lparr>year = 2026, month = 11, day = 4, hour = 9, minute = 5, second = 8,
                    microsecond = 123456\<rparr>
   \<and> os_path_join ''analysis_reports'' ''Test_20261104_090507.html''
       = ''analysis_reports/Test_20261104_090507.html''"
proof -
  let ?ser = "\<lparr>json_serializer = \<lambda>report path fs. (None, path # fs),
      csv_serializer = \<lambda>report path (fs :: string list). (Some OSError, fs),
      txt_serializer = \<lambda>report path fs. (None, path # fs),
      html_serializer = save_html (\<lambda>path document fs. (None, path # fs))\<rparr>"
  let ?now = "\<lparr>year = 2026, month = 11, day = 4, hour = 9, minute = 5, second = 7,
      microsecond = 123456\<rparr>"
  have f1: "filter (\<lambda>fmt. fmt \<in> set supported_formats) [''json'', ''xml''] = [''json'']"
    by (simp add: supported_formats_def)
  have f2: "filter (\<lambda>fmt. fmt \<in> set supported_formats) [''csv'', ''xml'', ''txt'']
              = [''csv'', ''txt'']"
    by (simp add: supported_formats_def)
  have ts: "strftime ?now = ''20261104_090507''"
    by (simp add: strftime_def zero_pad_def decimal.simps)
  have e1: "save_report ?ser ''analysis_reports'' ?now (PDict []) ''Test'' (Some [''json'']) []
     = ([(''json'', ''analysis_reports/Test_20261104_090507.json'')],
        [''analysis_reports/Test_20261104_090507.json''])"
    by (simp add: save_report_def ts supported_formats_def write_format_def record_saved_def
        os_path_join_def)
  have e2: "save_report ?ser ''analysis_reports'' ?now (PDict []) ''Test''
       (Some [''csv'', ''txt'']) []
     = ([(''txt'', ''analysis_reports/Test_20261104_090507.txt'')],
        [''analysis_reports/Test_20261104_090507.txt''])"
    by (simp add: save_report_def ts supported_formats_def write_format_def record_saved_def
        os_path_join_def)
  note skip = save_report_mapping[THEN conjunct2, THEN conjunct2, THEN conjunct1]
  have named: "''analysis_reports/Test_20261104_090507.json''
       = os_path_join ''analysis_reports'' (''Test'' @ ''_'' @ strftime ?now @ ''.'' @ ''json'')"
    using save_report_mapping
      [of ?ser "''analysis_reports''" ?now "PDict []" "''Test''" "[''json'']" "[]" "''json''"
          "''analysis_reports/Test_20261104_090507.json''", THEN conjunct1]
    unfolding e1 by simp
  have "save_report ?ser ''analysis_reports'' ?now (PDict []) ''Test''
          (Some [''json'', ''xml'']) []
        = save_report ?ser ''analysis_reports'' ?now (PDict []) ''Test'' (Some [''json'']) []"
    using skip[of ?ser "''analysis_reports''" ?now "PDict []" "''Test''" "[''json'', ''xml'']" "[]"]
    unfolding f1 .
  moreover have "save_report ?ser ''analysis_reports'' ?now (PDict []) ''Test''
          (Some [''csv'', ''xml'', ''txt'']) []
        = save_report ?ser ''analysis_reports'' ?now (PDict []) ''Test''
            (Some [''csv'', ''txt'']) []"
    using skip[of ?ser "''analysis_reports''" ?now "PDict []" "''Test''"
        "[''csv'', ''xml'', ''txt'']" "[]"]
    unfolding f2 .
  ultimately have calls: "save_report ?ser ''analysis_reports'' ?now (PDict []) ''Test''
          (Some [''json'', ''xml'']) []
        = ([(''json'', ''analysis_reports/Test_20261104_090507.json'')],
           [''analysis_reports/Test_20261104_090507.json''])"
    "save_report ?ser ''analysis_reports'' ?now (PDict []) ''Test''
          (Some [''csv'', ''xml'', ''txt'']) []
        = ([(''txt'', ''analysis_reports/Test_20261104_090507.txt'')],
           [''analysis_reports/Test_20261104_090507.txt''])"
    unfolding e1 e2 by simp_all
  let ?eve = "\<lparr>year = 2026, month = 12, day = 31, hour = 23, minute = 59, second = 8,
      microsecond = 250000\<rparr>"
  have ts': "strftime ?eve = ''20261231_235908''"
    by (simp add: strftime_def zero_pad_def decimal.simps)
  have e3: "save_report ?ser ''analysis_reports'' ?eve (PDict []) ''Test''
       (Some [''json'', ''txt'']) []
     = ([(''json'', ''analysis_reports/Test_20261231_235908.json''),
         (''txt'', ''analysis_reports/Test_20261231_235908.txt'')],
        [''analysis_reports/Test_20261231_235908.txt'',
         ''analysis_reports/Test_20261231_235908.json''])"
    by (simp add: save_report_def ts' supported_formats_def write_format_def record_saved_def
        os_path_join_def)
  have dflt: "save_report ?ser ''analysis_reports'' ?eve (PDict []) ''Test'' None []
     = ([(''json'', ''analysis_reports/Test_20261231_235908.json''),
         (''txt'', ''analysis_reports/Test_20261231_235908.txt'')],
        [''analysis_reports/Test_20261231_235908.txt'',
         ''analysis_reports/Test_20261231_235908.json''])"
    using save_report_mapping
      [where ser = ?ser and reports_dir = "''analysis_reports''" and now = ?eve
         and report = "PDict []" and apk_name = "''Test''" and fs = "[]",
       THEN conjunct2, THEN conjunct2, THEN conjunct2, THEN conjunct2, THEN conjunct1]
    unfolding e3 .
  let ?next = "\<lparr>year = 2026, month = 11, day = 4, hour = 9, minute = 5, second = 8,
      microsecond = 123456\<rparr>"
  have r: "is_clock_reading ?now" "is_clock_reading ?next"
    by (simp_all add: is_clock_reading_def)
  note stamp = save_report_mapping
      [where now = ?now and us = 999999 and later = ?next,
       THEN conjunct2, THEN conjunct2, THEN conjunct2, THEN conjunct2, THEN conjunct2]
  from stamp[THEN conjunct2, THEN conjunct1] r(1)
  have fields: "is_timestamp ''20261104_090507''"
    "timestamp_fields ''20261104_090507'' = [2026, 11, 4, 9, 5, 7]"
    unfolding ts by simp_all
  from stamp[THEN conjunct1]
  have same: "strftime ?now = strftime \<lparr>year = 2026, month = 11, day = 4, hour = 9,
      minute = 5, second = 7, microsecond = 999999\<rparr>"
    by simp
  from stamp[THEN conjunct2, THEN conjunct2, THEN conjunct1] r
  have differ: "strftime ?now \<noteq> strftime ?next"
    by simp
  from save_report_mapping
      [where now = ?now and reports_dir = "''analysis_reports''" and apk_name = "''Test''"
         and fmt = "''html''",
       THEN conjunct2, THEN conjunct2, THEN conjunct2, THEN conjunct2, THEN conjunct2,
       THEN conjunct2, THEN conjunct2, THEN conjunct2]
  have joined: "os_path_join ''analysis_reports'' ''Test_20261104_090507.html''
      = ''analysis_reports/Test_20261104_090507.html''"
    unfolding ts by simp
  from calls named dflt fields same differ joined show ?thesis
    by (simp only: simp_thms)
qed

subsection \<open>Hypertext serializer\<close>

text \<open>
  Claim C8 says that the serializer marks as dangerous the permissions of the dangerous
  list of the report, also where that list disagrees with the rule table. The serializer
  never reads the dangerous list: it tests each permission of the list against the table.
  On a report whose dangerous list is empty and whose list holds CAMERA, it marks CAMERA.
\<close>

theorem html_marks_counterexample:
  "field2 (PDict [(''permissions'', PDict
              [(''total'', PInt 1),
               (''list'', PList [PStr ''android.permission.CAMERA'']),
               (''dangerous'', PList [])])])
     ''permissions'' ''dangerous'' = Some (PList [])
   \<and> map_sum id permission_items
       (html_content (PDict [(''permissions'', PDict
              [(''total'', PInt 1),
               (''list'', PList [PStr ''android.permission.CAMERA'']),
               (''dangerous'', PList [])])]))
     = Inr [(''dangerous'', PStr ''android.permission.CAMERA'')]"
  by code_simp

text \<open>
  Claim C8, amended. The hypertext serializer writes one item for each permission of the
  permission list of the report, in order, and marks an item dangerous when the
  permission, letter case aside, contains an entry of the table. On every report that
  composition returns, the serializer returns a document, its items are the permissions
  of the list, and the items marked dangerous are the dangerous list of the report.
\<close>

theorem html_marks_by_table:
  "(html_content report = Inr document \<longrightarrow>
      (\<exists>permissions perm_list perms.
          dict_get report ''permissions'' (PDict []) = Inr permissions
        \<and> dict_get permissions ''list'' (PList []) = Inr perm_list
        \<and> py_iter perm_list = Inr perms
        \<and> permission_items document = map item_of perms))
   \<and> item_of (PStr p) = (if is_dangerous_permission p then ''dangerous'' else '''', PStr p)
   \<and> (compose_report analysis_date apk_info analysis_data = report \<and> report \<noteq> PDict [] \<longrightarrow>
      (\<exists>composed dangerous perm_list perms.
          html_content report = Inr composed
        \<and> field2 report ''permissions'' ''dangerous'' = Some (PList dangerous)
        \<and> field2 report ''permissions'' ''list'' = Some perm_list
        \<and> py_iter perm_list = Inr perms
        \<and> map snd (permission_items composed) = perms
        \<and> map snd (filter (\<lambda>item. fst item = ''dangerous'') (permission_items composed))
            = dangerous))"
proof (intro conjI impI)
  assume "html_content report = Inr document"
  then show "\<exists>permissions perm_list perms.
          dict_get report ''permissions'' (PDict []) = Inr permissions
        \<and> dict_get permissions ''list'' (PList []) = Inr perm_list
        \<and> py_iter perm_list = Inr perms
        \<and> permission_items document = map item_of perms"
    by (rule html_content_Inr)
next
  show "item_of (PStr p) = (if is_dangerous_permission p then ''dangerous'' else '''', PStr p)"
    by (rule item_of_str)
next
  assume "compose_report analysis_date apk_info analysis_data = report \<and> report \<noteq> PDict []"
  then have "compose_body analysis_date apk_info analysis_data = Inr report"
    using compose_report_nonempty by blast
  then obtain apk_name apk_path file_size last_modified permissions n dangerous intents
      activities score warnings
    where r: "extract_dangerous_permissions permissions = Inr dangerous"
        "report = report_of analysis_date apk_name apk_path file_size last_modified
            permissions n dangerous intents activities score warnings"
    unfolding compose_body_Inr by blast
  from html_content_report_of[OF r(1), of analysis_date apk_name apk_path file_size
      last_modified n intents activities score warnings]
  obtain composed perms where
    h: "html_content report = Inr composed"
       "py_iter permissions = Inr perms"
       "permission_items composed = map item_of perms"
       "dangerous = filter (\<lambda>perm. flagged dangerous_permissions perm = Inr True) perms"
    unfolding r(2) by blast
  have f: "field2 report ''permissions'' ''dangerous'' = Some (PList dangerous)"
       "field2 report ''permissions'' ''list'' = Some permissions"
    unfolding r(2) by (simp_all add: field2_def field_def report_of_def)
  have m: "map snd (permission_items composed) = perms"
    unfolding h(3) by (simp add: item_of_def comp_def)
  have "map snd (filter (\<lambda>item. fst item = ''dangerous'') (permission_items composed))
            = dangerous"
    unfolding h(3) h(4) by (rule marked_items)
  with h(1,2) f m show "\<exists>composed dangerous perm_list perms.
          html_content report = Inr composed
        \<and> field2 report ''permissions'' ''dangerous'' = Some (PList dangerous)
        \<and> field2 report ''permissions'' ''list'' = Some perm_list
        \<and> py_iter perm_list = Inr perms
        \<and> map snd (permission_items composed) = perms
        \<and> map snd (filter (\<lambda>item. fst item = ''dangerous'') (permission_items composed))
            = dangerous"
    by blast
qed

theorem html_marks_by_table_witness:
  "map_sum id (\<lambda>document.
        map snd (filter (\<lambda>item. fst item = ''dangerous'') (permission_items document)))
     (html_content (compose_report ''2026-11-04T12:00:00''
             (PDict [(''name'', PStr ''Notes.apk'')])
             (PDict [(''Permissions'',
                PList [PStr ''android.permission.INTERNET'', PStr ''android.permission.CAMERA''])])))
   = Inr [PStr ''android.permission.CAMERA'']
   \<and> field2 (compose_report ''2026-11-04T12:00:00''
             (PDict [(''name'', PStr ''Notes.apk'')])
             (PDict [(''Permissions'',
                PList [PStr ''android.permission.INTERNET'', PStr ''android.permission.CAMERA''])]))
        ''permissions'' ''dangerous'' = Some (PList [PStr ''android.permission.CAMERA''])
   \<and> map_sum id permission_items
       (html_content (PDict [(''permissions'', PDict
          [(''list'', PList [PStr ''android.permission.INTERNET'',
                              PStr ''android.permission.camera''])])]))
     = Inr [('''', PStr ''android.permission.INTERNET''),
            (''dangerous'', PStr ''android.permission.camera'')]"
proof -
  let ?info = "PDict [(''name'', PStr ''Notes.apk'')]"
  let ?perms = "[''android.permission.INTERNET'', ''android.permission.CAMERA'']"
  let ?data = "PDict [(''Permissions'', PList (map PStr ?perms))]"
  let ?report = "compose_report ''2026-11-04T12:00:00'' ?info ?data"
  have a: "dict_get ?info ''name'' (PStr '''') = Inr (PStr ''Notes.apk'')"
    by (simp add: dict_get_def)
  have b: "dict_get ?data ''Permissions'' (PList []) = Inr (PList (map PStr ?perms))"
    by (simp add: dict_get_def)
  have i: "dict_get ?data ''Intents'' (PDict []) = Inr (PDict [])"
    by (simp add: dict_get_def)
  have l: "py_len (PDict []) = Inr 0"
    by (simp add: py_len_def)
  have d1: "\<not> is_dangerous_permission ''android.permission.INTERNET''"
    by code_simp
  have d2: "is_dangerous_permission ''android.permission.CAMERA''"
    by code_simp
  obtain ws where ws: "generate_warnings ?info ?data = Inr ws"
    using warnings_typed[OF a b] by simp
  have rep: "field2 ?report ''permissions'' ''dangerous''
               = Some (PList [PStr ''android.permission.CAMERA''])"
    using compose_report_typed[OF a b i l ws, of "''2026-11-04T12:00:00''"]
    by (simp add: field2_def field_def report_of_def d1 d2)
  have ne: "?report \<noteq> PDict []"
    using compose_report_typed_nonempty[OF a b i l] by simp
  from html_marks_by_table[of ?report _ _ "''2026-11-04T12:00:00''" ?info ?data] ne
  obtain composed dangerous where
      h: "html_content ?report = Inr composed"
    and f: "field2 ?report ''permissions'' ''dangerous'' = Some (PList dangerous)"
    and m: "map snd (filter (\<lambda>item. fst item = ''dangerous'') (permission_items composed))
            = dangerous"
    by blast
  from f rep have "dangerous = [PStr ''android.permission.CAMERA'']" by simp
  with h m rep have composed_part:
    "map_sum id (\<lambda>document.
        map snd (filter (\<lambda>item. fst item = ''dangerous'') (permission_items document)))
       (html_content ?report) = Inr [PStr ''android.permission.CAMERA'']"
    by simp
  let ?bare = "PDict [(''permissions'', PDict
          [(''list'', PList [PStr ''android.permission.INTERNET'',
                              PStr ''android.permission.camera''])])]"
  have d3: "is_dangerous_permission ''android.permission.camera''"
    by code_simp
  have "\<exists>document. html_content ?bare = Inr document"
    by (simp add: html_content_def dict_get_def str_lower_def py_iter_def lower_def
        flagged_dangerous d1 d3)
  then obtain document where b1: "html_content ?bare = Inr document" ..
  from html_marks_by_table[of ?bare document, THEN conjunct1] b1
  obtain permissions perm_list perms where
      b2: "dict_get ?bare ''permissions'' (PDict []) = Inr permissions"
    and b3: "dict_get permissions ''list'' (PList []) = Inr perm_list"
    and b4: "py_iter perm_list = Inr perms"
    and b5: "permission_items document = map item_of perms"
    by blast
  from b2 b3 b4 have "perms = [PStr ''android.permission.INTERNET'',
                              PStr ''android.permission.camera'']"
    by (auto simp: dict_get_def py_iter_def)
  with b5 have "permission_items document
      = [('''', PStr ''android.permission.INTERNET''),
         (''dangerous'', PStr ''android.permission.camera'')]"
    by (simp add: html_marks_by_table[THEN conjunct2, THEN conjunct1] d1 d3)
  with b1 composed_part rep show ?thesis by simp
qed

subsection \<open>Presentation-level tier\<close>

text \<open>
  Claim C9. For an application name and an optional list of permissions, the quick tier is
  high when the tally is at least 2, medium when it is at least 1, low otherwise. The
  tally counts the words of the table found in the lower-cased name and adds half a point
  for each entry of the permission table that at least one permission contains, letter
  case aside; without permissions, or with none given, it is the word count alone.
\<close>

theorem presentation_tier:
  assumes "permissions = PNone \<and> perms = [] \<or> permissions = PList (map PStr perms)"
  shows "determine_maliciousness (PStr name) permissions =
           Inr (if quick_tally name perms \<ge> 2 then (LEVEL_HIGH, Colors_RED)
                else if quick_tally name perms \<ge> 1 then (LEVEL_MEDIUM, Colors_ORANGE)
                else (LEVEL_LOW, Colors_GREEN))"
proof -
  let ?words = "length (filter (\<lambda>word. sublist word (lower name)) SUSPICIOUS_WORDS)"
  have loop: "of_int (keyword_loop SUSPICIOUS_WORDS (lower name) 0) = (of_nat ?words :: rat)"
    by (simp add: keyword_loop_filter)
  from assms consider
      (none) "permissions = PNone" "perms = []"
    | (empty) "permissions = PList []" "perms = []"
    | (some) "permissions = PList (map PStr perms)" "perms \<noteq> []"
    by (cases perms) auto
  then have counts:
    "(if truthy permissions
      then permission_loop DANGEROUS_PERMISSIONS permissions (0, of_nat ?words)
      else Inr (0, of_nat ?words))
     = Inr (length (filter (\<lambda>entry. \<exists>p \<in> set perms. contains_ci entry p) DANGEROUS_PERMISSIONS),
            quick_tally name perms)"
  proof cases
    case none
    then show ?thesis by (simp add: truthy_def quick_tally_def)
  next
    case empty
    then show ?thesis by (simp add: truthy_def quick_tally_def)
  next
    case some
    then show ?thesis by (simp add: truthy_def permission_loop_str quick_tally_def)
  qed
  show ?thesis
    unfolding determine_maliciousness_def
    by (simp only: str_lower_def pyval.case and_then_Inr Let_def loop counts snd_conv)
qed

theorem presentation_tier_witness:
  "determine_maliciousness (PStr ''FreeGame.apk'')
     (PList [PStr ''android.permission.CAMERA'', PStr ''android.permission.READ_SMS''])
     = Inr (LEVEL_HIGH, Colors_RED)
   \<and> determine_maliciousness (PStr ''FreeGame.apk'') PNone = Inr (LEVEL_MEDIUM, Colors_ORANGE)
   \<and> determine_maliciousness (PStr ''Notes.apk'') (PList []) = Inr (LEVEL_LOW, Colors_GREEN)
   \<and> determine_maliciousness (PStr (''hac'' @ KELVIN_SIGN @ ''.apk'')) PNone
       = Inr (LEVEL_MEDIUM, Colors_ORANGE)"
proof -
  have t1: "quick_tally ''FreeGame.apk''
              [''android.permission.CAMERA'', ''android.permission.READ_SMS''] = 2"
    by code_simp
  have t2: "quick_tally ''FreeGame.apk'' [] = 1"
    by code_simp
  have t3: "quick_tally ''Notes.apk'' [] = 0"
    by code_simp
  have t4: "quick_tally (''hac'' @ KELVIN_SIGN @ ''.apk'') [] = 1"
    by code_simp
  have "determine_maliciousness (PStr ''FreeGame.apk'')
     (PList (map PStr [''android.permission.CAMERA'', ''android.permission.READ_SMS'']))
     = Inr (LEVEL_HIGH, Colors_RED)"
    using presentation_tier
      [of "PList (map PStr [''android.permission.CAMERA'', ''android.permission.READ_SMS''])"
          "[''android.permission.CAMERA'', ''android.permission.READ_SMS'']" "''FreeGame.apk''"]
    unfolding t1 by simp
  moreover have "determine_maliciousness (PStr ''FreeGame.apk'') PNone
     = Inr (LEVEL_MEDIUM, Colors_ORANGE)"
    using presentation_tier[of PNone "[]" "''FreeGame.apk''"] unfolding t2 by simp
  moreover have "determine_maliciousness (PStr ''Notes.apk'') (PList [])
     = Inr (LEVEL_LOW, Colors_GREEN)"
    using presentation_tier[of "PList []" "[]" "''Notes.apk''"] unfolding t3 by simp
  moreover have "determine_maliciousness (PStr (''hac'' @ KELVIN_SIGN @ ''.apk'')) PNone
     = Inr (LEVEL_MEDIUM, Colors_ORANGE)"
    using presentation_tier[of PNone "[]" "''hac'' @ KELVIN_SIGN @ ''.apk''"] unfolding t4 by simp
  ultimately show ?thesis by simp
qed

subsection \<open>Composition on well-formed inputs\<close>

text \<open>
  Claim C10 asks only that the permissions, when present, be a list of \<open>str\<close> and the
  intents, when present, a dictionary. The name of the file descriptor is lower-cased by
  the scorer: a descriptor whose name is \<open>None\<close> meets the precondition, the scorer
  raises, and composition returns the empty dictionary.
\<close>

theorem compose_report_name_counterexample:
  "is_dict (PDict [(''name'', PNone)]) \<and> facts_well_formed (PDict [])
   \<and> compose_report ''2026-11-04T12:00:00'' (PDict [(''name'', PNone)]) (PDict []) = PDict []"
  by (simp add: is_dict_def facts_well_formed_def compose_report_def compose_body_def
      dict_get_def py_len_def extract_dangerous_permissions_def py_iter_def
      assess_security_def calculate_suspicious_score_def str_lower_def)

text \<open>
  Claim C10, amended. \<open>compose_report\<close> never raises: every exception of its body ends
  in the empty dictionary. When moreover the name of the file descriptor, if present, is
  a \<open>str\<close>, the body raises nothing and the report returned is fully populated: every
  section and every field is there, a key missing from the file descriptor or from the
  package facts replaced by its default (the name Unknown in the metadata and the empty
  name for the scorer, the empty path, size 0, no permission, no intent), with the counts,
  the score, the tier, the warnings and the recommendations that belong to these values;
  it is not the empty dictionary. On two empty dictionaries the report holds the defaults:
  the name Unknown, no permission, the low tier and the reassuring statement as its one
  recommendation.
\<close>

theorem compose_report_well_formed:
  "(\<forall>e. compose_body analysis_date apk_info analysis_data = Inl e
        \<longrightarrow> compose_report analysis_date apk_info analysis_data = PDict [])
   \<and> (name_is_str apk_info \<and> facts_well_formed analysis_data \<longrightarrow>
        (\<exists>info facts name perms intents.
             apk_info = PDict info \<and> analysis_data = PDict facts
           \<and> (case map_of info ''name'' of None \<Rightarrow> PStr '''' | Some v \<Rightarrow> v) = PStr name
           \<and> (case map_of facts ''Permissions'' of None \<Rightarrow> PList [] | Some v \<Rightarrow> v)
               = PList (map PStr perms)
           \<and> (case map_of facts ''Intents'' of None \<Rightarrow> PDict [] | Some v \<Rightarrow> v)
               = PDict intents
           \<and> compose_body analysis_date apk_info analysis_data
               = Inr (compose_report analysis_date apk_info analysis_data)
           \<and> compose_report analysis_date apk_info analysis_data
               = report_of analysis_date
                   (case map_of info ''name'' of None \<Rightarrow> PStr ''Unknown'' | Some v \<Rightarrow> v)
                   (case map_of info ''path'' of None \<Rightarrow> PStr '''' | Some v \<Rightarrow> v)
                   (case map_of info ''size'' of None \<Rightarrow> PInt 0 | Some v \<Rightarrow> v)
                   (case map_of info ''last_modified'' of None \<Rightarrow> PStr '''' | Some v \<Rightarrow> v)
                   (PList (map PStr perms)) (length perms)
                   (map PStr (filter is_dangerous_permission perms))
                   (PDict intents) (length intents)
                   (min (int (2 * keyword_hits name + count_dangerous perms)) 10)
                   ((if count_dangerous perms > 0
                     then [warning_dangerous (count_dangerous perms)] else [])
                    @ (case find (\<lambda>keyword. sublist keyword (lower name)) suspicious_keywords of
                         None \<Rightarrow> [] | Some keyword \<Rightarrow> [warning_keyword keyword])
                    @ (if length perms > 20 then [warning_many (length perms)] else []))
           \<and> compose_report analysis_date apk_info analysis_data \<noteq> PDict []))
   \<and> compose_report analysis_date (PDict []) (PDict []) =
        report_of analysis_date (PStr ''Unknown'') (PStr '''') (PInt 0) (PStr '''') (PList []) 0 []
          (PDict []) 0 0 []"
proof (intro conjI allI impI)
  fix e
  assume "compose_body analysis_date apk_info analysis_data = Inl e"
  then show "compose_report analysis_date apk_info analysis_data = PDict []"
    by (simp add: compose_report_def)
next
  assume wf: "name_is_str apk_info \<and> facts_well_formed analysis_data"
  from wf name_is_str_cases obtain info name where
    i: "apk_info = PDict info"
    and n: "(case map_of info ''name'' of None \<Rightarrow> PStr '''' | Some v \<Rightarrow> v) = PStr name"
    by blast
  from wf facts_well_formed_cases obtain facts perms intents where
    f: "analysis_data = PDict facts"
    and p: "(case map_of facts ''Permissions'' of None \<Rightarrow> PList [] | Some v \<Rightarrow> v)
             = PList (map PStr perms)"
    and t: "(case map_of facts ''Intents'' of None \<Rightarrow> PDict [] | Some v \<Rightarrow> v) = PDict intents"
    by blast
  let ?warnings = "((if count_dangerous perms > 0
                     then [warning_dangerous (count_dangerous perms)] else [])
                    @ (case find (\<lambda>keyword. sublist keyword (lower name)) suspicious_keywords of
                         None \<Rightarrow> [] | Some keyword \<Rightarrow> [warning_keyword keyword])
                    @ (if length perms > 20 then [warning_many (length perms)] else []))"
  have a: "dict_get (PDict info) ''name'' (PStr '''') = Inr (PStr name)"
    using n by (simp add: dict_get_def)
  have d: "dict_get analysis_data ''Permissions'' (PList []) = Inr (PList (map PStr perms))"
    "dict_get analysis_data ''Intents'' (PDict []) = Inr (PDict intents)"
    "py_len (PDict intents) = Inr (length intents)"
    using f p t by (simp_all add: dict_get_def py_len_def)
  have ws: "generate_warnings (PDict info) analysis_data = Inr ?warnings"
    using warnings_typed[OF a d(1)] .
  note body = compose_body_typed[OF a d ws, of analysis_date, folded i]
  note report = compose_report_typed[OF a d ws, of analysis_date, folded i]
  have full: "compose_body analysis_date apk_info analysis_data
               = Inr (compose_report analysis_date apk_info analysis_data)"
    unfolding report using body .
  have ne: "compose_report analysis_date apk_info analysis_data \<noteq> PDict []"
    unfolding report by (rule report_of_nonempty)
  from i f n p t full report ne
  show "\<exists>info facts name perms intents.
             apk_info = PDict info \<and> analysis_data = PDict facts
           \<and> (case map_of info ''name'' of None \<Rightarrow> PStr '''' | Some v \<Rightarrow> v) = PStr name
           \<and> (case map_of facts ''Permissions'' of None \<Rightarrow> PList [] | Some v \<Rightarrow> v)
               = PList (map PStr perms)
           \<and> (case map_of facts ''Intents'' of None \<Rightarrow> PDict [] | Some v \<Rightarrow> v)
               = PDict intents
           \<and> compose_body analysis_date apk_info analysis_data
               = Inr (compose_report analysis_date apk_info analysis_data)
           \<and> compose_report analysis_date apk_info analysis_data
               = report_of analysis_date
                   (case map_of info ''name'' of None \<Rightarrow> PStr ''Unknown'' | Some v \<Rightarrow> v)
                   (case map_of info ''path'' of None \<Rightarrow> PStr '''' | Some v \<Rightarrow> v)
                   (case map_of info ''size'' of None \<Rightarrow> PInt 0 | Some v \<Rightarrow> v)
                   (case map_of info ''last_modified'' of None \<Rightarrow> PStr '''' | Some v \<Rightarrow> v)
                   (PList (map PStr perms)) (length perms)
                   (map PStr (filter is_dangerous_permission perms))
                   (PDict intents) (length intents)
                   (min (int (2 * keyword_hits name + count_dangerous perms)) 10)
                   ((if count_dangerous perms > 0
                     then [warning_dangerous (count_dangerous perms)] else [])
                    @ (case find (\<lambda>keyword. sublist keyword (lower name)) suspicious_keywords of
                         None \<Rightarrow> [] | Some keyword \<Rightarrow> [warning_keyword keyword])
                    @ (if length perms > 20 then [warning_many (length perms)] else []))
           \<and> compose_report analysis_date apk_info analysis_data \<noteq> PDict []"
    by (intro exI conjI)
next
  show "compose_report analysis_date (PDict []) (PDict []) =
        report_of analysis_date (PStr ''Unknown'') (PStr '''') (PInt 0) (PStr '''') (PList []) 0 []
          (PDict []) 0 0 []"
    by (rule compose_report_empty_inputs)
qed

theorem compose_report_well_formed_witness:
  "compose_report ''2026-11-04T12:00:00'' (PDict []) (PDict [])
     = PDict
         [(''metadata'', PDict
             [(''apk_name'', PStr ''Unknown''),
              (''apk_path'', PStr ''''),
              (''file_size'', PInt 0),
              (''last_modified'', PStr ''''),
              (''analysis_date'', PStr ''2026-11-04T12:00:00''),
              (''report_version'', PStr ''1.0'')]),
          (''permissions'', PDict
             [(''total'', PInt 0), (''list'', PList []), (''dangerous'', PList [])]),
          (''intents'', PDict []),
          (''security_assessment'', PDict
             [(''risk_level'', PStr RISK_LOW),
              (''risk_color'', PStr Colors_GREEN),
              (''suspicious_score'', PInt 0),
              (''dangerous_permissions_count'', PInt 0),
              (''warnings'', PList [])]),
          (''recommendations'', PList [PStr REC_NO_THREATS]),
          (''statistics'', PDict
             [(''total_permissions'', PInt 0),
              (''dangerous_permissions'', PInt 0),
              (''activities'', PInt 0),
              (''suspicious_score'', PInt 0)])]
   \<and> compose_report ''2026-11-04T12:00:00''
        (PDict [(''name'', PStr ''FreeNotes.apk''),
                (''path'', PStr ''/sdcard/Download/FreeNotes.apk'')])
        (PDict [(''Permissions'', PList [PStr ''android.permission.INTERNET'',
                                         PStr ''android.permission.CAMERA'']),
                (''Intents'', PDict [(''MainActivity'', PList [])])])
     = PDict
         [(''metadata'', PDict
             [(''apk_name'', PStr ''FreeNotes.apk''),
              (''apk_path'', PStr ''/sdcard/Download/FreeNotes.apk''),
              (''file_size'', PInt 0),
              (''last_modified'', PStr ''''),
              (''analysis_date'', PStr ''2026-11-04T12:00:00''),
              (''report_version'', PStr ''1.0'')]),
          (''permissions'', PDict
             [(''total'', PInt 2),
              (''list'', PList [PStr ''android.permission.INTERNET'',
                                PStr ''android.permission.CAMERA'']),
              (''dangerous'', PList [PStr ''android.permission.CAMERA''])]),
          (''intents'', PDict [(''MainActivity'', PList [])]),
          (''security_assessment'', PDict
             [(''risk_level'', PStr RISK_MEDIUM),
              (''risk_color'', PStr Colors_ORANGE),
              (''suspicious_score'', PInt 3),
              (''dangerous_permissions_count'', PInt 1),
              (''warnings'', PList [PStr (warning_dangerous 1), PStr (warning_keyword ''free'')])]),
          (''recommendations'', PList [PStr (rec_dangerous ''1''), PStr REC_RECONSIDER]),
          (''statistics'', PDict
             [(''total_permissions'', PInt 2),
              (''dangerous_permissions'', PInt 1),
              (''activities'', PInt 1),
              (''suspicious_score'', PInt 3)])]"
proof -
  let ?info = "PDict [(''name'', PStr ''FreeNotes.apk''),
                (''path'', PStr ''/sdcard/Download/FreeNotes.apk'')]"
  let ?data = "PDict [(''Permissions'', PList [PStr ''android.permission.INTERNET'',
                                         PStr ''android.permission.CAMERA'']),
                (''Intents'', PDict [(''MainActivity'', PList [])])]"
  note inst = compose_report_well_formed[of "''2026-11-04T12:00:00''" ?info ?data]
  have t0: "tier 0 0 = RISK_LOW" "tier_color 0 0 = Colors_GREEN"
    by (simp_all add: tier_def tier_color_def)
  have r0: "recommendation_rules (PStr RISK_LOW) 0 0 = [REC_NO_THREATS]"
    using risk_levels_distinct by (simp add: recommendation_rules_def)
  from inst[THEN conjunct2, THEN conjunct2]
  have first: "compose_report ''2026-11-04T12:00:00'' (PDict []) (PDict []) =
        report_of ''2026-11-04T12:00:00'' (PStr ''Unknown'') (PStr '''') (PInt 0) (PStr '''')
          (PList []) 0 [] (PDict []) 0 0 []" .
  have wf: "name_is_str ?info \<and> facts_well_formed ?data"
    by (simp add: name_is_str_def facts_well_formed_def is_str_list_def is_str_def is_dict_def)
  from inst[THEN conjunct2, THEN conjunct1] wf
  obtain info facts name perms intents where
    i: "?info = PDict info" and f: "?data = PDict facts"
    and n: "(case map_of info ''name'' of None \<Rightarrow> PStr '''' | Some v \<Rightarrow> v) = PStr name"
    and p: "(case map_of facts ''Permissions'' of None \<Rightarrow> PList [] | Some v \<Rightarrow> v)
             = PList (map PStr perms)"
    and t: "(case map_of facts ''Intents'' of None \<Rightarrow> PDict [] | Some v \<Rightarrow> v) = PDict intents"
    and r: "compose_report ''2026-11-04T12:00:00'' ?info ?data
               = report_of ''2026-11-04T12:00:00''
                   (case map_of info ''name'' of None \<Rightarrow> PStr ''Unknown'' | Some v \<Rightarrow> v)
                   (case map_of info ''path'' of None \<Rightarrow> PStr '''' | Some v \<Rightarrow> v)
                   (case map_of info ''size'' of None \<Rightarrow> PInt 0 | Some v \<Rightarrow> v)
                   (case map_of info ''last_modified'' of None \<Rightarrow> PStr '''' | Some v \<Rightarrow> v)
                   (PList (map PStr perms)) (length perms)
                   (map PStr (filter is_dangerous_permission perms))
                   (PDict intents) (length intents)
                   (min (int (2 * keyword_hits name + count_dangerous perms)) 10)
                   ((if count_dangerous perms > 0
                     then [warning_dangerous (count_dangerous perms)] else [])
                    @ (case find (\<lambda>keyword. sublist keyword (lower name)) suspicious_keywords of
                         None \<Rightarrow> [] | Some keyword \<Rightarrow> [warning_keyword keyword])
                    @ (if length perms > 20 then [warning_many (length perms)] else []))"
    by blast
  from i have info: "info = [(''name'', PStr ''FreeNotes.apk''),
                (''path'', PStr ''/sdcard/Download/FreeNotes.apk'')]"
    by simp
  from f have facts: "facts = [(''Permissions'', PList [PStr ''android.permission.INTERNET'',
                                         PStr ''android.permission.CAMERA'']),
                (''Intents'', PDict [(''MainActivity'', PList [])])]"
    by simp
  from n have name: "name = ''FreeNotes.apk''"
    unfolding info by simp
  from p have perms: "perms = [''android.permission.INTERNET'', ''android.permission.CAMERA'']"
    unfolding facts by (auto simp: map_eq_Cons_conv)
  from t have intents: "intents = [(''MainActivity'', PList [])]"
    unfolding facts by simp
  have d1: "\<not> is_dangerous_permission ''android.permission.INTERNET''"
    by code_simp
  have d2: "is_dangerous_permission ''android.permission.CAMERA''"
    by code_simp
  have fl: "filter is_dangerous_permission
              [''android.permission.INTERNET'', ''android.permission.CAMERA'']
            = [''android.permission.CAMERA'']"
    by (simp add: d1 d2)
  have c: "count_dangerous [''android.permission.INTERNET'', ''android.permission.CAMERA''] = 1"
    by (simp add: count_dangerous_def d1 d2)
  have k: "keyword_hits ''FreeNotes.apk'' = 1"
    by code_simp
  have fk: "find (\<lambda>keyword. sublist keyword (lower ''FreeNotes.apk'')) suspicious_keywords
              = Some ''free''"
    by code_simp
  have t1: "tier 3 (Suc 0) = RISK_MEDIUM" "tier_color 3 (Suc 0) = Colors_ORANGE"
    by (simp_all add: tier_def tier_color_def)
  have r1: "recommendation_rules (PStr RISK_MEDIUM) 1 2 = [rec_dangerous ''1'', REC_RECONSIDER]"
    using risk_levels_distinct
    by (simp add: recommendation_rules_def str_of_int_def decimal.simps)
  have second: "compose_report ''2026-11-04T12:00:00'' ?info ?data
     = report_of ''2026-11-04T12:00:00'' (PStr ''FreeNotes.apk'')
         (PStr ''/sdcard/Download/FreeNotes.apk'') (PInt 0) (PStr '''')
         (PList [PStr ''android.permission.INTERNET'', PStr ''android.permission.CAMERA'']) 2
         [PStr ''android.permission.CAMERA''] (PDict [(''MainActivity'', PList [])]) 1 3
         [warning_dangerous 1, warning_keyword ''free'']"
    unfolding r unfolding info name perms intents fl c k fk by (simp add: numeral_2_eq_2)
  show ?thesis
    unfolding first second by (simp add: report_of_def t0 r0 t1 r1)
qed

end
